theory Spec2Isabelle
  imports Complex_Main "HOL-Library.Sublist" "HOL-Library.Char_ord" "HOL-Library.List_Lexorder"
    "HOL-Library.Multiset"
begin

section \<open>Strings and numbers as the source uses them\<close>

text \<open>
  JavaScript strings are modelled as \<^typ>\<open>string\<close> and restricted to ASCII: \<open>toLowerCase\<close>
  maps the letters A to Z, \<open>trim\<close> strips the ASCII white space at both ends, and
  \<open>length\<close> counts characters. JavaScript numbers are modelled as exact reals (counts as
  naturals, parsed timestamps as integer milliseconds); rounding and NaN are outside the model.
\<close>

definition upper_lower :: "(char \<times> char) list" where
  "upper_lower = zip ''ABCDEFGHIJKLMNOPQRSTUVWXYZ'' ''abcdefghijklmnopqrstuvwxyz''"

definition lowerChar :: "char \<Rightarrow> char" where
  "lowerChar c = (case map_of upper_lower c of Some l \<Rightarrow> l | None \<Rightarrow> c)"

definition toLowerCase :: "string \<Rightarrow> string" where
  "toLowerCase s = map lowerChar s"

definition isWhitespace :: "char \<Rightarrow> bool" where
  "isWhitespace c = (c \<in> set [CHR '' '', CHR 0x09, CHR 0x0A, CHR 0x0B, CHR 0x0C, CHR 0x0D])"

definition trim :: "string \<Rightarrow> string" where
  "trim s = rev (dropWhile isWhitespace (rev (dropWhile isWhitespace s)))"

text \<open>\<open>s.includes(sub)\<close> on strings: \<open>sub\<close> occurs in \<open>s\<close> as a contiguous run.\<close>

primrec includes_str :: "string \<Rightarrow> string \<Rightarrow> bool" where
  "includes_str [] sub = (sub = [])"
| "includes_str (c # cs) sub = (prefix sub (c # cs) \<or> includes_str cs sub)"

definition isDigit :: "char \<Rightarrow> bool" where
  "isDigit c = (c \<in> set ''0123456789'')"

text \<open>
  A JavaScript \<open>Map\<close> keeps its keys in insertion order; \<open>set\<close> on a key that is present
  replaces the value in place. It is an association list here, read with \<^const>\<open>map_of\<close>.
\<close>

fun map_set :: "('k \<times> 'v) list \<Rightarrow> 'k \<Rightarrow> 'v \<Rightarrow> ('k \<times> 'v) list" where
  "map_set [] k v = [(k, v)]"
| "map_set ((k', v') # m) k v =
     (if k' = k then (k, v) # m else (k', v') # map_set m k v)"


section \<open>The skill graph\<close>

record SkillNode =
  name :: string
  aliases :: "string list"
  category :: string
  related :: "string list"
  expanded :: "string list"

record NormalizedSkill =
  original :: string
  normalized :: string
  category :: string
  expanded :: "string list"
  weight :: real

definition node :: "string \<Rightarrow> string list \<Rightarrow> string \<Rightarrow> string list \<Rightarrow> string list \<Rightarrow> SkillNode" where
  "node n a c r e =
     \<lparr>name = n, aliases = a, SkillNode.category = c, related = r, SkillNode.expanded = e\<rparr>"

text \<open>The list \<open>skills\<close> of \<open>initializeSkillGraph\<close>, in the order of the source.\<close>

definition initialSkills :: "SkillNode list" where
  "initialSkills = [
     node ''javascript'' [''js'', ''ecmascript''] ''language''
       [''typescript'', ''nodejs'', ''react'', ''vue'', ''angular'']
       [''javascript'', ''js'', ''ecmascript'', ''frontend'', ''web'', ''browser''],
     node ''typescript'' [''ts''] ''language''
       [''javascript'', ''react'', ''angular'', ''nodejs'']
       [''typescript'', ''ts'', ''javascript'', ''js'', ''frontend'', ''web'', ''typed''],
     node ''html'' [''html5''] ''language''
       [''css'', ''javascript'', ''web'']
       [''html'', ''html5'', ''markup'', ''web'', ''frontend'', ''semantic''],
     node ''css'' [''css3''] ''language''
       [''html'', ''javascript'', ''scss'', ''sass'']
       [''css'', ''css3'', ''styling'', ''web'', ''frontend'', ''design''],
     node ''react'' [''reactjs''] ''framework''
       [''javascript'', ''typescript'', ''jsx'', ''redux'']
       [''react'', ''reactjs'', ''javascript'', ''js'', ''frontend'', ''web'', ''ui'',
        ''component'', ''jsx'', ''hooks''],
     node ''vue'' [''vuejs''] ''framework''
       [''javascript'', ''typescript'', ''nuxt'']
       [''vue'', ''vuejs'', ''javascript'', ''js'', ''frontend'', ''web'', ''ui'', ''component''],
     node ''angular'' [''angularjs''] ''framework''
       [''typescript'', ''javascript'', ''rxjs'']
       [''angular'', ''angularjs'', ''typescript'', ''ts'', ''javascript'', ''js'', ''frontend'',
        ''web'', ''ui'', ''component''],
     node ''svelte'' [] ''framework''
       [''javascript'', ''typescript'']
       [''svelte'', ''javascript'', ''js'', ''frontend'', ''web'', ''ui'', ''component''],
     node ''python'' [''py''] ''language''
       [''django'', ''flask'', ''fastapi'', ''pandas'', ''numpy'']
       [''python'', ''py'', ''backend'', ''server'', ''scripting'', ''data-science''],
     node ''java'' [] ''language''
       [''spring'', ''maven'', ''gradle'']
       [''java'', ''backend'', ''server'', ''enterprise'', ''jvm''],
     node ''go'' [''golang''] ''language''
       [''gin'', ''echo'', ''fiber'']
       [''go'', ''golang'', ''backend'', ''server'', ''microservice'', ''concurrent''],
     node ''rust'' [] ''language''
       [''actix'', ''tokio'', ''serde'']
       [''rust'', ''backend'', ''server'', ''systems'', ''performance'', ''memory-safe''],
     node ''php'' [] ''language''
       [''laravel'', ''symfony'', ''composer'']
       [''php'', ''backend'', ''server'', ''web''],
     node ''ruby'' [] ''language''
       [''rails'', ''sinatra'', ''bundler'']
       [''ruby'', ''backend'', ''server'', ''web'', ''rails''],
     node ''nodejs'' [''node''] ''platform''
       [''javascript'', ''express'', ''koa'', ''nestjs'']
       [''nodejs'', ''node'', ''javascript'', ''js'', ''backend'', ''server'', ''npm''],
     node ''django'' [] ''framework''
       [''python'', ''djangorestframework'']
       [''django'', ''python'', ''py'', ''backend'', ''server'', ''web'', ''mvc'', ''orm''],
     node ''flask'' [] ''framework''
       [''python'', ''sqlalchemy'']
       [''flask'', ''python'', ''py'', ''backend'', ''server'', ''web'', ''microframework''],
     node ''express'' [''expressjs''] ''framework''
       [''nodejs'', ''javascript'']
       [''express'', ''expressjs'', ''nodejs'', ''node'', ''javascript'', ''js'', ''backend'',
        ''server'', ''web''],
     node ''spring'' [''springboot''] ''framework''
       [''java'', ''maven'']
       [''spring'', ''springboot'', ''java'', ''backend'', ''server'', ''enterprise'',
        ''dependency-injection''],
     node ''postgresql'' [''postgres''] ''tool''
       [''sql'', ''database'']
       [''postgresql'', ''postgres'', ''sql'', ''database'', ''db'', ''relational''],
     node ''mysql'' [] ''tool''
       [''sql'', ''database'']
       [''mysql'', ''sql'', ''database'', ''db'', ''relational''],
     node ''mongodb'' [''mongo''] ''tool''
       [''nosql'', ''database'']
       [''mongodb'', ''mongo'', ''nosql'', ''database'', ''db'', ''document''],
     node ''redis'' [] ''tool''
       [''cache'', ''database'']
       [''redis'', ''cache'', ''database'', ''db'', ''key-value'', ''in-memory''],
     node ''docker'' [] ''tool''
       [''kubernetes'', ''containerization'']
       [''docker'', ''container'', ''containerization'', ''devops'', ''deployment''],
     node ''kubernetes'' [''k8s''] ''tool''
       [''docker'', ''containerization'']
       [''kubernetes'', ''k8s'', ''container'', ''orchestration'', ''devops'', ''deployment''],
     node ''aws'' [''amazon web services''] ''platform''
       [''cloud'', ''devops'']
       [''aws'', ''amazon web services'', ''cloud'', ''devops'', ''infrastructure''],
     node ''git'' [] ''tool''
       [''github'', ''gitlab'']
       [''git'', ''version-control'', ''vcs'', ''scm''],
     node ''machine learning'' [''ml''] ''concept''
       [''python'', ''tensorflow'', ''pytorch'', ''scikit-learn'']
       [''machine learning'', ''ml'', ''ai'', ''artificial intelligence'', ''data-science'',
        ''python'', ''py''],
     node ''tensorflow'' [''tf''] ''library''
       [''python'', ''machine learning'']
       [''tensorflow'', ''tf'', ''python'', ''py'', ''machine learning'', ''ml'',
        ''deep learning'', ''neural network''],
     node ''pytorch'' [] ''library''
       [''python'', ''machine learning'']
       [''pytorch'', ''python'', ''py'', ''machine learning'', ''ml'', ''deep learning'',
        ''neural network''],
     node ''pandas'' [] ''library''
       [''python'', ''data science'']
       [''pandas'', ''python'', ''py'', ''data-science'', ''data-analysis'', ''dataframe''],
     node ''react native'' [''reactnative''] ''framework''
       [''react'', ''javascript'', ''mobile'']
       [''react native'', ''reactnative'', ''react'', ''javascript'', ''js'', ''mobile'', ''ios'',
        ''android'', ''cross-platform''],
     node ''flutter'' [] ''framework''
       [''dart'', ''mobile'']
       [''flutter'', ''dart'', ''mobile'', ''ios'', ''android'', ''cross-platform'', ''ui''],
     node ''swift'' [] ''language''
       [''ios'', ''mobile'']
       [''swift'', ''ios'', ''mobile'', ''apple'', ''objective-c''],
     node ''kotlin'' [] ''language''
       [''android'', ''mobile'']
       [''kotlin'', ''android'', ''mobile'', ''jvm'', ''java'']
   ]"

text \<open>\<open>initializeSkillGraph\<close>: every node is stored under its lowercased name.\<close>

definition skillGraph :: "(string \<times> SkillNode) list" where
  "skillGraph = foldl (\<lambda>g skill. map_set g (toLowerCase (name skill)) skill) [] initialSkills"


section \<open>The skill normalizer\<close>

text \<open>The table \<open>abbreviations\<close> of \<open>generateVariations\<close>, in the order of its keys.\<close>

definition abbreviations :: "(string \<times> string list) list" where
  "abbreviations = [
     (''javascript'', [''js'']),
     (''typescript'', [''ts'']),
     (''python'', [''py'']),
     (''react'', [''reactjs'']),
     (''vue'', [''vuejs'']),
     (''angular'', [''angularjs'']),
     (''node'', [''nodejs'']),
     (''machine learning'', [''ml'', ''machinelearning'']),
     (''artificial intelligence'', [''ai'']),
     (''user interface'', [''ui'']),
     (''user experience'', [''ux'']),
     (''application programming interface'', [''api'']),
     (''representational state transfer'', [''rest'']),
     (''graphql'', [''gql'']),
     (''cascading style sheets'', [''css'']),
     (''hypertext markup language'', [''html''])
   ]"

text \<open>One round of the loop over the table: the short forms when the long form occurs in
  the skill, then the long form once for every short form that occurs in it.\<close>

definition abbreviationVariations :: "string \<Rightarrow> string \<times> string list \<Rightarrow> string list" where
  "abbreviationVariations skill entry =
     (case entry of (full, abbrevs) \<Rightarrow>
        (if includes_str skill full then abbrevs else []) @
        concat (map (\<lambda>abbrev. if includes_str skill abbrev then [full] else []) abbrevs))"

definition generateVariations :: "string \<Rightarrow> string list" where
  "generateVariations skill =
     [skill] @
     concat (map (abbreviationVariations skill) abbreviations) @
     (if list_ex isDigit skill then [filter (\<lambda>c. \<not> isDigit c) skill]
      else [skill @ ''3'', skill @ ''2'', skill @ ''1''])"

text \<open>The first variation that is a key of the graph decides.\<close>

primrec firstInGraph :: "string list \<Rightarrow> SkillNode option" where
  "firstInGraph [] = None"
| "firstInGraph (variation # rest) =
     (case map_of skillGraph variation of
        Some match \<Rightarrow> Some match
      | None \<Rightarrow> firstInGraph rest)"

definition findFuzzyMatch :: "string \<Rightarrow> SkillNode option" where
  "findFuzzyMatch skill = firstInGraph (generateVariations skill)"

text \<open>The loop over the entries of the graph that looks for the skill among the aliases.\<close>

definition findAliasMatch :: "string \<Rightarrow> SkillNode option" where
  "findAliasMatch cleanSkill =
     map_option snd (find (\<lambda>(key, n). cleanSkill \<in> set (aliases n)) skillGraph)"

definition fromNode :: "string \<Rightarrow> SkillNode \<Rightarrow> real \<Rightarrow> NormalizedSkill" where
  "fromNode skill n w =
     \<lparr>original = skill, normalized = name n, category = SkillNode.category n,
      expanded = SkillNode.expanded n, weight = w\<rparr>"

text \<open>\<open>normalizeSkill\<close>; \<open>None\<close> is the source's \<open>null\<close>.\<close>

definition normalizeSkill :: "string \<Rightarrow> NormalizedSkill option" where
  "normalizeSkill skill =
     (let cleanSkill = toLowerCase (trim skill) in
      if cleanSkill = [] then None
      else case map_of skillGraph cleanSkill of
        Some directMatch \<Rightarrow> Some (fromNode skill directMatch 1.0)
      | None \<Rightarrow>
         (case findAliasMatch cleanSkill of
            Some n \<Rightarrow> Some (fromNode skill n 0.9)
          | None \<Rightarrow>
             (case findFuzzyMatch cleanSkill of
                Some fuzzyMatch \<Rightarrow> Some (fromNode skill fuzzyMatch 0.8)
              | None \<Rightarrow>
                 Some \<lparr>original = skill, normalized = cleanSkill, category = ''concept'',
                       expanded = [cleanSkill], weight = 0.5\<rparr>)))"

text \<open>\<open>normalizedSkills.get(key)!.weight += w\<close>: the entry stored under the key is
  updated in place.\<close>

definition addWeight :: "(string \<times> NormalizedSkill) list \<Rightarrow> string \<Rightarrow> real \<Rightarrow> (string \<times> NormalizedSkill) list" where
  "addWeight m key w =
     map (\<lambda>(k, s). if k = key then (k, s\<lparr>weight := weight s + w\<rparr>) else (k, s)) m"

text \<open>The body of the loop of \<open>normalizeSkills\<close> over the input skills: a skill that
  resolves is stored under its lowercased normalized name, or adds its weight to the entry
  that is already there; a skill that resolves to \<open>null\<close> is skipped.\<close>

definition storeSkill :: "(string \<times> NormalizedSkill) list \<Rightarrow> NormalizedSkill \<Rightarrow> (string \<times> NormalizedSkill) list" where
  "storeSkill normalizedSkills n =
     (let key = toLowerCase (normalized n) in
      if map_of normalizedSkills key = None then map_set normalizedSkills key n
      else addWeight normalizedSkills key (weight n))"

definition addSkill :: "(string \<times> NormalizedSkill) list \<Rightarrow> string \<Rightarrow> (string \<times> NormalizedSkill) list" where
  "addSkill normalizedSkills skill =
     (case normalizeSkill skill of
        None \<Rightarrow> normalizedSkills
      | Some n \<Rightarrow> storeSkill normalizedSkills n)"

text \<open>
  \<open>normalizeSkills\<close>. The call \<open>cacheManager.getSkillNormalization(skills)\<close> comes first:
  it builds its key with \<open>skills.sort()\<close>, which sorts the array of the caller in place, by
  code units, so the loop runs over the sorted skills. The answer of the cache is the
  argument \<open>cachedSkills\<close> (\<open>None\<close> for a miss). Writing the result back to the cache
  leaves the returned value unchanged and is not modelled.
\<close>

definition normalizeSkills :: "NormalizedSkill list option \<Rightarrow> string list \<Rightarrow> NormalizedSkill list" where
  "normalizeSkills cachedSkills skills =
     (if skills = [] then []
      else
        let skills = sort skills in
        case cachedSkills of
          Some cached \<Rightarrow> cached
        | None \<Rightarrow> map snd (foldl addSkill [] skills))"

text \<open>The skills of the input that resolve, in the order of the input.\<close>

definition resolved :: "string list \<Rightarrow> NormalizedSkill list" where
  "resolved skills = List.map_filter normalizeSkill skills"

text \<open>
  The invariant of the loop of \<open>normalizeSkills\<close>: after the resolved skills \<open>rs\<close>, the
  map has one entry for every key among them, stored under its own key, whose weight is
  the sum of the weights of the skills with that key.
\<close>

definition accumulates :: "(string \<times> NormalizedSkill) list \<Rightarrow> NormalizedSkill list \<Rightarrow> bool" where
  "accumulates m rs \<longleftrightarrow>
     distinct (map fst m) \<and>
     fst ` set m = (\<lambda>n. toLowerCase (normalized n)) ` set rs \<and>
     (\<forall>(k, s) \<in> set m. k = toLowerCase (normalized s) \<and>
        weight s = sum_list (map weight (filter (\<lambda>n. toLowerCase (normalized n) = k) rs)))"


section \<open>Repositories, options and scores\<close>

text \<open>
  \<open>RepositoryDetails\<close> with the fields the scorer reads. A field that may be \<open>null\<close>
  or missing is an option; \<open>enrichedData\<close> is the block the scorer reads through optional
  chaining. The three timestamps are the values of
  \<open>new Date(...).getTime()\<close>, in milliseconds. The current time, which the source reads
  from the system clock, is the explicit argument \<open>now\<close> (milliseconds) of every function
  that reads it; all reads of one invocation see the same instant.
\<close>

record CommitAnalysis =
  frequency :: real
  recency :: real
  contributorDistribution :: real
  averageCommitSize :: real
  commitMessageQuality :: real
  branchActivity :: real

record IssueAnalysis =
  responseTime :: real
  resolutionRate :: real
  maintainerActivity :: real
  communityEngagement :: real
  issueQuality :: real
  labelUsage :: real

record DependencyAnalysis =
  healthScore :: real
  securityScore :: real
  updateFrequency :: real
  dependencyCount :: real
  outdatedDependencies :: real
  licenseCompatibility :: real

record ReadmeAnalysis =
  contentQuality :: real
  skillKeywords :: "string list option"
  projectType :: string
  complexity :: real
  learningResources :: real
  setupDifficulty :: real

record EnrichedRepositoryData =
  commitAnalysis :: "CommitAnalysis option"
  issueAnalysis :: "IssueAnalysis option"
  dependencyAnalysis :: "DependencyAnalysis option"
  readmeAnalysis :: "ReadmeAnalysis option"

record RepositoryDetails =
  full_name :: string
  description :: "string option"
  stargazers_count :: nat
  forks_count :: nat
  open_issues_count :: nat
  language :: "string option"
  topics :: "string list option"
  goodFirstIssues :: nat
  created_at :: int
  updated_at :: int
  pushed_at :: int
  homepage :: "string option"
  license :: "string option"
  enrichedData :: "EnrichedRepositoryData option"

text \<open>The field \<open>license\<close> holds the \<open>name\<close> of the license object when there is one.\<close>

datatype Mode = ProfileBuilding | Learning | QuickWins

record ScoringWeights =
  relevance :: real
  quality :: real
  opportunity :: real

record PartialWeights =
  relevance :: "real option"
  quality :: "real option"
  opportunity :: "real option"

record ScoringOptions =
  mode :: "Mode option"
  weights :: "PartialWeights option"
  minStars :: "nat option"
  maxStars :: "nat option"

record Breakdown =
  languageMatch :: real
  topicMatch :: real
  readmeMatch :: real
  starsScore :: real
  activityScore :: real
  documentationScore :: real
  issueScore :: real
  contributorScore :: real
  commitActivityScore :: real
  issueResponseScore :: real
  dependencyHealthScore :: real
  readmeQualityScore :: real
  skillMatchScore :: real

record RepositoryScore =
  relevance :: real
  quality :: real
  opportunity :: real
  final :: real
  breakdown :: Breakdown

record ScoredRepo =
  repo :: RepositoryDetails
  score :: RepositoryScore

text \<open>A string that may be missing is truthy when it is there and not empty.\<close>

definition truthy :: "string option \<Rightarrow> bool" where
  "truthy s = (case s of None \<Rightarrow> False | Some v \<Rightarrow> v \<noteq> [])"

definition text_of :: "string option \<Rightarrow> string" where
  "text_of s = (case s of None \<Rightarrow> [] | Some v \<Rightarrow> v)"

definition msPerDay :: real where
  "msPerDay = 1000 * 60 * 60 * 24"

definition daysSince :: "int \<Rightarrow> int \<Rightarrow> real" where
  "daysSince now t = real_of_int (now - t) / msPerDay"


section \<open>The dimension scorers\<close>

definition getModeWeights :: "Mode \<Rightarrow> ScoringWeights" where
  "getModeWeights m =
     (case m of
        Learning \<Rightarrow>
          \<lparr>ScoringWeights.relevance = 0.3, ScoringWeights.quality = 0.5,
           ScoringWeights.opportunity = 0.2\<rparr>
      | QuickWins \<Rightarrow>
          \<lparr>ScoringWeights.relevance = 0.2, ScoringWeights.quality = 0.1,
           ScoringWeights.opportunity = 0.7\<rparr>
      | ProfileBuilding \<Rightarrow>
          \<lparr>ScoringWeights.relevance = 0.6, ScoringWeights.quality = 0.3,
           ScoringWeights.opportunity = 0.1\<rparr>)"

text \<open>The spread \<open>{ ...modeWeights, ...options.weights }\<close>: a field of the override that
  is present replaces the field of the mode.\<close>

definition overrideWeights :: "ScoringWeights \<Rightarrow> PartialWeights option \<Rightarrow> ScoringWeights" where
  "overrideWeights modeWeights override =
     (case override of
        None \<Rightarrow> modeWeights
      | Some p \<Rightarrow>
          \<lparr>ScoringWeights.relevance =
             (case PartialWeights.relevance p of None \<Rightarrow> ScoringWeights.relevance modeWeights
              | Some v \<Rightarrow> v),
           ScoringWeights.quality =
             (case PartialWeights.quality p of None \<Rightarrow> ScoringWeights.quality modeWeights
              | Some v \<Rightarrow> v),
           ScoringWeights.opportunity =
             (case PartialWeights.opportunity p of None \<Rightarrow> ScoringWeights.opportunity modeWeights
              | Some v \<Rightarrow> v)\<rparr>)"

definition languages :: "string list" where
  "languages = [
     ''javascript'', ''typescript'', ''python'', ''java'', ''c++'', ''c#'', ''go'', ''rust'',
     ''php'', ''ruby'', ''swift'', ''kotlin'', ''scala'', ''clojure'', ''haskell'', ''elixir'',
     ''dart'', ''r'', ''matlab'', ''perl'', ''lua'', ''shell'', ''powershell'', ''html'', ''css'',
     ''scss'', ''sass'', ''less'', ''vue'', ''react'', ''angular'', ''svelte'']"

definition isLanguage :: "string \<Rightarrow> bool" where
  "isLanguage str = (toLowerCase str \<in> set languages)"

definition calculateLanguageMatch :: "RepositoryDetails \<Rightarrow> NormalizedSkill list \<Rightarrow> real" where
  "calculateLanguageMatch r skills =
     (if \<not> truthy (language r) \<or> skills = [] then 0
      else
        let repoLanguage = toLowerCase (text_of (language r));
            skillLanguages =
              map (\<lambda>skill. toLowerCase (normalized skill))
                (filter (\<lambda>skill. category skill = ''language'') skills)
        in if repoLanguage \<in> set skillLanguages then 1.0
        else
          let expandedLanguages =
                map toLowerCase (filter isLanguage (concat (map expanded skills)))
          in if repoLanguage \<in> set expandedLanguages then 0.8
          else
            let relatedLanguages =
                  filter (\<lambda>e. includes_str e repoLanguage \<or> includes_str repoLanguage e)
                    (concat (map expanded skills))
            in if length relatedLanguages > 0 then 0.6 else 0)"

text \<open>The names and expanded keywords of the skills, lowercased: \<open>skillTopics\<close> and
  \<open>skillKeywords\<close> of the source.\<close>

definition skillKeywordsOf :: "NormalizedSkill list \<Rightarrow> string list" where
  "skillKeywordsOf skills =
     map toLowerCase (concat (map (\<lambda>skill. normalized skill # expanded skill) skills))"

definition calculateTopicMatch :: "RepositoryDetails \<Rightarrow> NormalizedSkill list \<Rightarrow> real" where
  "calculateTopicMatch r skills =
     (case topics r of
        None \<Rightarrow> 0
      | Some ts \<Rightarrow>
          if ts = [] \<or> skills = [] then 0
          else
            let repoTopics = map toLowerCase ts;
                skillTopics = skillKeywordsOf skills;
                matches =
                  filter (\<lambda>topic. list_ex (\<lambda>skillTopic. topic = skillTopic \<or>
                      includes_str topic skillTopic \<or> includes_str skillTopic topic) skillTopics)
                    repoTopics;
                matchRatio = real (length matches) / real (max (length repoTopics) 1)
            in min (matchRatio * 2) 1.0)"

definition calculateReadmeMatch :: "RepositoryDetails \<Rightarrow> NormalizedSkill list \<Rightarrow> real" where
  "calculateReadmeMatch r skills =
     (if \<not> truthy (description r) \<or> skills = [] then 0
      else
        let desc = toLowerCase (text_of (description r));
            skillKeywords = skillKeywordsOf skills;
            matches = filter (\<lambda>keyword. includes_str desc keyword) skillKeywords;
            matchRatio = real (length matches) / real (length skillKeywords)
        in min (matchRatio * 3) 1.0)"

definition calculateStarsScore :: "nat \<Rightarrow> real" where
  "calculateStarsScore stars =
     (if stars = 0 then 0
      else if stars > 20000 then 0.5
      else if stars > 5000 then 0.6
      else if stars > 1000 then 0.7
      else min (real stars / 1000) 0.7)"

text \<open>Days since the later of \<open>updated_at\<close> and \<open>pushed_at\<close>.\<close>

definition daysSinceActivity :: "int \<Rightarrow> RepositoryDetails \<Rightarrow> real" where
  "daysSinceActivity now r = daysSince now (max (updated_at r) (pushed_at r))"

definition calculateActivityScore :: "int \<Rightarrow> RepositoryDetails \<Rightarrow> real" where
  "calculateActivityScore now r =
     (let d = daysSinceActivity now r;
          baseScore =
            (if d \<le> 1 then 1.0
             else if d \<le> 7 then 0.95
             else if d \<le> 30 then 0.8
             else if d \<le> 90 then 0.6
             else if d \<le> 365 then 0.3
             else 0.1);
          baseScore = (if d \<le> 3 then baseScore + 0.05 else baseScore)
      in min baseScore 1.0)"

definition calculateDocumentationScore :: "RepositoryDetails \<Rightarrow> real" where
  "calculateDocumentationScore r =
     (let score = 0;
          score = (if truthy (description r) \<and> length (text_of (description r)) > 20
                   then score + 0.3 else score);
          score = (if truthy (homepage r) then score + 0.2 else score);
          score = (case license r of
                     None \<Rightarrow> score
                   | Some licenseName \<Rightarrow> if licenseName \<noteq> ''Other'' then score + 0.2 else score);
          score = (case topics r of
                     None \<Rightarrow> score
                   | Some ts \<Rightarrow> if length ts > 0 then score + 0.1 else score);
          score = (if goodFirstIssues r > 0 then score + 0.2 else score)
      in min score 1.0)"

definition calculateIssueScore :: "RepositoryDetails \<Rightarrow> real" where
  "calculateIssueScore r =
     (let totalIssues = open_issues_count r;
          goodFirst = goodFirstIssues r
      in if totalIssues = 0 then 0.5
      else
        let issueDensity = real goodFirst / real totalIssues;
            baseScore =
              (if issueDensity \<ge> 0.1 then 1.0
               else if issueDensity \<ge> 0.05 then 0.8
               else if issueDensity \<ge> 0.02 then 0.6
               else if issueDensity > 0 then 0.4
               else 0.2);
            activityBonus = min (real totalIssues / 20) 0.1
        in min (baseScore + activityBonus) 1.0)"

definition calculateContributorScore :: "RepositoryDetails \<Rightarrow> real" where
  "calculateContributorScore r =
     (let forkScore = min (real (forks_count r) / 100) 1.0 * 0.6;
          starScore = min (real (stargazers_count r) / 1000) 1.0 * 0.4
      in forkScore + starScore)"


section \<open>The scorers over enriched data\<close>

text \<open>The optional chains \<open>repo.enrichedData?.commitAnalysis\<close> and its siblings.\<close>

definition commitAnalysisOf :: "RepositoryDetails \<Rightarrow> CommitAnalysis option" where
  "commitAnalysisOf r = (case enrichedData r of None \<Rightarrow> None | Some e \<Rightarrow> commitAnalysis e)"

definition issueAnalysisOf :: "RepositoryDetails \<Rightarrow> IssueAnalysis option" where
  "issueAnalysisOf r = (case enrichedData r of None \<Rightarrow> None | Some e \<Rightarrow> issueAnalysis e)"

definition dependencyAnalysisOf :: "RepositoryDetails \<Rightarrow> DependencyAnalysis option" where
  "dependencyAnalysisOf r =
     (case enrichedData r of None \<Rightarrow> None | Some e \<Rightarrow> dependencyAnalysis e)"

definition readmeAnalysisOf :: "RepositoryDetails \<Rightarrow> ReadmeAnalysis option" where
  "readmeAnalysisOf r = (case enrichedData r of None \<Rightarrow> None | Some e \<Rightarrow> readmeAnalysis e)"

definition skillKeywordsOfReadme :: "RepositoryDetails \<Rightarrow> string list option" where
  "skillKeywordsOfReadme r =
     (case readmeAnalysisOf r of None \<Rightarrow> None | Some a \<Rightarrow> skillKeywords a)"

definition calculateCommitActivityScore :: "RepositoryDetails \<Rightarrow> real" where
  "calculateCommitActivityScore r =
     (case commitAnalysisOf r of
        None \<Rightarrow> 0
      | Some a \<Rightarrow>
          let frequencyScore = min (frequency a / 5) 1;
              recencyScore = max 0 (1 - recency a / 30);
              activityScore =
                frequencyScore * 0.3 + recencyScore * 0.3 + contributorDistribution a * 0.2 +
                commitMessageQuality a * 0.1 + branchActivity a * 0.1
          in min activityScore 1)"

definition calculateIssueResponseScore :: "RepositoryDetails \<Rightarrow> real" where
  "calculateIssueResponseScore r =
     (case issueAnalysisOf r of
        None \<Rightarrow> 0
      | Some a \<Rightarrow>
          let responseScore = max 0 (1 - responseTime a / 24);
              responseQualityScore =
                responseScore * 0.3 + resolutionRate a * 0.25 + maintainerActivity a * 0.2 +
                communityEngagement a * 0.15 + issueQuality a * 0.05 + labelUsage a * 0.05
          in min responseQualityScore 1)"

definition calculateDependencyHealthScore :: "RepositoryDetails \<Rightarrow> real" where
  "calculateDependencyHealthScore r =
     (case dependencyAnalysisOf r of
        None \<Rightarrow> 0
      | Some a \<Rightarrow>
          let outdatedRatio =
                (if dependencyCount a > 0 then outdatedDependencies a / dependencyCount a else 0);
              outdatedScore = max 0 (1 - outdatedRatio);
              dependencyScore =
                healthScore a * 0.3 + securityScore a * 0.25 + updateFrequency a * 0.15 +
                outdatedScore * 0.2 + licenseCompatibility a * 0.1
          in min dependencyScore 1)"

definition calculateReadmeQualityScore :: "RepositoryDetails \<Rightarrow> real" where
  "calculateReadmeQualityScore r =
     (case readmeAnalysisOf r of
        None \<Rightarrow> 0
      | Some a \<Rightarrow>
          let learningScore = min (learningResources a / 5) 1;
              setupScore = max 0 (1 - setupDifficulty a);
              readmeScore = contentQuality a * 0.5 + learningScore * 0.3 + setupScore * 0.2
          in min readmeScore 1)"

text \<open>A user keyword matches when some README keyword, lowercased, contains it or is
  contained in it.\<close>

definition matchesReadme :: "string list \<Rightarrow> string \<Rightarrow> bool" where
  "matchesReadme readmeSkills skill =
     list_ex (\<lambda>readmeSkill. includes_str (toLowerCase readmeSkill) skill \<or>
                includes_str skill (toLowerCase readmeSkill)) readmeSkills"

definition calculateSkillMatchScore :: "RepositoryDetails \<Rightarrow> NormalizedSkill list \<Rightarrow> real" where
  "calculateSkillMatchScore r skills =
     (case skillKeywordsOfReadme r of
        None \<Rightarrow> 0
      | Some readmeSkills \<Rightarrow>
          if skills = [] then 0
          else
            let userSkills = map (\<lambda>skill. toLowerCase (normalized skill)) skills;
                userExpandedSkills = concat (map (\<lambda>skill. map toLowerCase (expanded skill)) skills);
                totalSkills = length userSkills;
                matches = real (length (filter (matchesReadme readmeSkills) userSkills)) +
                  0.5 * real (length (filter (matchesReadme readmeSkills) userExpandedSkills))
            in if totalSkills > 0 then min (matches / real totalSkills) 1 else 0)"


section \<open>The composite scorer\<close>

definition calculateRelevanceScore :: "RepositoryDetails \<Rightarrow> NormalizedSkill list \<Rightarrow> ScoringOptions \<Rightarrow> real" where
  "calculateRelevanceScore r skills options =
     (let (wLanguage, wTopic, wReadme, wSkillMatch) =
            (if mode options = Some Learning then (0.2, 0.4, 0.2, 0.2)
             else if mode options = Some QuickWins then (0.2, 0.2, 0.3, 0.3)
             else (0.3, 0.3, 0.2, 0.2 :: real))
      in calculateLanguageMatch r skills * wLanguage +
         calculateTopicMatch r skills * wTopic +
         calculateReadmeMatch r skills * wReadme +
         calculateSkillMatchScore r skills * wSkillMatch)"

definition calculateQualityScore :: "int \<Rightarrow> RepositoryDetails \<Rightarrow> ScoringOptions \<Rightarrow> real" where
  "calculateQualityScore now r options =
     (let (wStars, wActivity, wDocumentation, wCommitActivity, wDependencyHealth, wReadmeQuality) =
            (if mode options = Some Learning then (0.25, 0.15, 0.25, 0.15, 0.1, 0.1)
             else if mode options = Some QuickWins then (0.4, 0.25, 0.1, 0.15, 0.05, 0.05)
             else if mode options = Some ProfileBuilding then (0.3, 0.2, 0.15, 0.15, 0.1, 0.1)
             else (0.3, 0.2, 0.15, 0.15, 0.1, 0.1 :: real));
          qualityScore =
            calculateStarsScore (stargazers_count r) * wStars +
            calculateActivityScore now r * wActivity +
            calculateDocumentationScore r * wDocumentation +
            calculateCommitActivityScore r * wCommitActivity +
            calculateDependencyHealthScore r * wDependencyHealth +
            calculateReadmeQualityScore r * wReadmeQuality;
          qualityScore =
            (if stargazers_count r \<ge> 50 \<and> stargazers_count r \<le> 500 then qualityScore + 0.1
             else qualityScore);
          qualityScore =
            (if forks_count r > 0 then qualityScore + min (real (forks_count r) / 20) 0.05
             else qualityScore)
      in min qualityScore 1.0)"

definition calculateOpportunityScore :: "RepositoryDetails \<Rightarrow> ScoringOptions \<Rightarrow> real" where
  "calculateOpportunityScore r options =
     (let (wIssues, wContributors, wResponse) =
            (if mode options = Some Learning then (0.6, 0.2, 0.2)
             else if mode options = Some QuickWins then (0.6, 0.1, 0.3)
             else if mode options = Some ProfileBuilding then (0.5, 0.3, 0.2)
             else (0.5, 0.3, 0.2 :: real))
      in calculateIssueScore r * wIssues +
         calculateContributorScore r * wContributors +
         calculateIssueResponseScore r * wResponse)"

definition calculateSizePenalty :: "RepositoryDetails \<Rightarrow> real" where
  "calculateSizePenalty r =
     (let penalty = 0;
          penalty = (if open_issues_count r > 5000 then penalty + 0.3
                     else if open_issues_count r > 1000 then penalty + 0.15
                     else penalty);
          penalty = (if stargazers_count r > 1000
                     then penalty + log 10 (real (stargazers_count r)) * 0.08
                     else penalty);
          penalty = (if stargazers_count r > 10000 then penalty + 0.15 else penalty)
      in penalty)"

definition calculateModePenalties :: "int \<Rightarrow> RepositoryDetails \<Rightarrow> ScoringOptions \<Rightarrow> real" where
  "calculateModePenalties now r options =
     (let penalty = 0;
          penalty = (if stargazers_count r < 10 then penalty + 0.3
                     else if stargazers_count r < 20 then penalty + 0.15
                     else penalty)
      in case mode options of
        Some Learning \<Rightarrow>
          (let penalty = (if goodFirstIssues r = 0 then penalty + 0.5 else penalty);
               penalty = (if \<not> truthy (description r) \<or> length (text_of (description r)) < 50
                          then penalty + 0.3 else penalty);
               penalty = (if daysSince now (updated_at r) > 365 then penalty + 0.2 else penalty)
           in penalty)
      | Some QuickWins \<Rightarrow>
          (let penalty = (if open_issues_count r > 500 then penalty + 0.6
                          else if open_issues_count r > 200 then penalty + 0.4
                          else if open_issues_count r > 100 then penalty + 0.2
                          else penalty);
               penalty = (if open_issues_count r = 0 then penalty + 0.5 else penalty);
               penalty = (if stargazers_count r > 10000 then penalty + 0.3 else penalty);
               penalty = (if daysSince now (updated_at r) > 180 then penalty + 0.3 else penalty)
           in penalty)
      | Some ProfileBuilding \<Rightarrow>
          (let penalty = (if stargazers_count r < 50 then penalty + 0.5
                          else if stargazers_count r < 100 then penalty + 0.3
                          else if stargazers_count r < 200 then penalty + 0.1
                          else penalty);
               penalty = (if daysSince now (created_at r) < 30 then penalty + 0.3
                          else if daysSince now (created_at r) < 90 then penalty + 0.1
                          else penalty);
               penalty = (if stargazers_count r > 50000 then penalty + 0.2 else penalty)
           in penalty)
      | None \<Rightarrow> penalty)"

text \<open>\<open>repo.description && repo.description.toLowerCase().includes(word)\<close>.\<close>

definition descriptionIncludes :: "RepositoryDetails \<Rightarrow> string \<Rightarrow> bool" where
  "descriptionIncludes r word =
     (truthy (description r) \<and> includes_str (toLowerCase (text_of (description r))) word)"

text \<open>\<open>repo.topics && repo.topics.some(topic => words.includes(topic.toLowerCase()))\<close>.\<close>

definition someTopicIn :: "RepositoryDetails \<Rightarrow> string list \<Rightarrow> bool" where
  "someTopicIn r ws =
     (case topics r of
        None \<Rightarrow> False
      | Some ts \<Rightarrow> list_ex (\<lambda>topic. toLowerCase topic \<in> set ws) ts)"

text \<open>The \<open>switch\<close> of \<open>applyModeBonuses\<close> that accumulates \<open>bonus\<close>.\<close>

definition modeBonus :: "int \<Rightarrow> RepositoryDetails \<Rightarrow> ScoringOptions \<Rightarrow> real" where
  "modeBonus now r options =
     (let bonus = 0 in
      case mode options of
        Some Learning \<Rightarrow>
          (let bonus = (if goodFirstIssues r > 10 then bonus + 0.3
                        else if goodFirstIssues r > 5 then bonus + 0.2
                        else if goodFirstIssues r > 0 then bonus + 0.1
                        else bonus);
               bonus = (if descriptionIncludes r ''tutorial'' then bonus + 0.15 else bonus);
               bonus = (if descriptionIncludes r ''example'' then bonus + 0.15 else bonus);
               bonus = (if descriptionIncludes r ''learn'' then bonus + 0.1 else bonus);
               bonus = (if descriptionIncludes r ''beginner'' then bonus + 0.1 else bonus);
               bonus = (if someTopicIn r [''tutorial'', ''example'', ''learning'', ''beginner'',
                            ''documentation'', ''education'']
                        then bonus + 0.2 else bonus);
               bonus = (if truthy (description r) \<and> length (text_of (description r)) > 100
                        then bonus + 0.1 else bonus)
           in bonus)
      | Some QuickWins \<Rightarrow>
          (let bonus = (if goodFirstIssues r > 0 then bonus + 0.4 else bonus);
               bonus = (if open_issues_count r \<ge> 5 \<and> open_issues_count r \<le> 50 then bonus + 0.3
                        else if open_issues_count r > 50 \<and> open_issues_count r \<le> 100
                        then bonus + 0.2
                        else if open_issues_count r > 100 \<and> open_issues_count r \<le> 200
                        then bonus + 0.1
                        else bonus);
               bonus = (if stargazers_count r \<ge> 50 \<and> stargazers_count r \<le> 2000 then bonus + 0.2
                        else if stargazers_count r > 2000 \<and> stargazers_count r \<le> 5000
                        then bonus + 0.1
                        else bonus);
               bonus = (if someTopicIn r [''good-first-issue'', ''help-wanted'', ''hacktoberfest'',
                            ''contribution'']
                        then bonus + 0.3 else bonus);
               bonus = (if daysSince now (updated_at r) \<le> 7 then bonus + 0.2
                        else if daysSince now (updated_at r) \<le> 30 then bonus + 0.1
                        else bonus)
           in bonus)
      | Some ProfileBuilding \<Rightarrow>
          (let bonus = (if stargazers_count r > 5000 then bonus + 0.4
                        else if stargazers_count r > 1000 then bonus + 0.3
                        else if stargazers_count r > 500 then bonus + 0.2
                        else if stargazers_count r > 100 then bonus + 0.1
                        else bonus);
               bonus = (if someTopicIn r [''popular'', ''trending'', ''awesome'', ''production'',
                            ''enterprise'']
                        then bonus + 0.2 else bonus);
               bonus = (if descriptionIncludes r ''production'' then bonus + 0.15 else bonus);
               bonus = (if descriptionIncludes r ''enterprise'' then bonus + 0.15 else bonus);
               bonus = (if descriptionIncludes r ''framework'' then bonus + 0.1 else bonus);
               bonus = (if descriptionIncludes r ''library'' then bonus + 0.1 else bonus);
               bonus = (if daysSince now (created_at r) > 365 then bonus + 0.1 else bonus)
           in bonus)
      | None \<Rightarrow> bonus)"

definition applyModeBonuses :: "int \<Rightarrow> real \<Rightarrow> RepositoryDetails \<Rightarrow> ScoringOptions \<Rightarrow> real" where
  "applyModeBonuses now baseScore r options =
     (let penalty = 0;
          penalty = penalty + calculateSizePenalty r;
          penalty = penalty + calculateModePenalties now r options;
          bonus = modeBonus now r options
      in max 0 (min (baseScore + bonus - penalty) 1.0))"

definition applyFreshnessBoost :: "int \<Rightarrow> real \<Rightarrow> RepositoryDetails \<Rightarrow> real" where
  "applyFreshnessBoost now baseScore r =
     (if daysSinceActivity now r \<le> 7 then baseScore * 1.2 else baseScore)"

definition modeOrDefault :: "ScoringOptions \<Rightarrow> Mode" where
  "modeOrDefault options = (case mode options of None \<Rightarrow> ProfileBuilding | Some m \<Rightarrow> m)"

definition scoreRepository :: "int \<Rightarrow> RepositoryDetails \<Rightarrow> NormalizedSkill list \<Rightarrow> ScoringOptions \<Rightarrow> RepositoryScore" where
  "scoreRepository now r skills options =
     (let modeWeights = getModeWeights (modeOrDefault options);
          ws = overrideWeights modeWeights (weights options);
          relevanceScore = calculateRelevanceScore r skills options;
          qualityScore = calculateQualityScore now r options;
          opportunityScore = calculateOpportunityScore r options;
          finalScore =
            relevanceScore * ScoringWeights.relevance ws +
            qualityScore * ScoringWeights.quality ws +
            opportunityScore * ScoringWeights.opportunity ws;
          finalScore = applyModeBonuses now finalScore r options;
          finalScore = applyFreshnessBoost now finalScore r
      in \<lparr>relevance = relevanceScore,
          quality = qualityScore,
          opportunity = opportunityScore,
          final = finalScore,
          breakdown =
            \<lparr>languageMatch = calculateLanguageMatch r skills,
             topicMatch = calculateTopicMatch r skills,
             readmeMatch = calculateReadmeMatch r skills,
             starsScore = calculateStarsScore (stargazers_count r),
             activityScore = calculateActivityScore now r,
             documentationScore = calculateDocumentationScore r,
             issueScore = calculateIssueScore r,
             contributorScore = calculateContributorScore r,
             commitActivityScore = calculateCommitActivityScore r,
             issueResponseScore = calculateIssueResponseScore r,
             dependencyHealthScore = calculateDependencyHealthScore r,
             readmeQualityScore = calculateReadmeQualityScore r,
             skillMatchScore = calculateSkillMatchScore r skills\<rparr>\<rparr>)"


section \<open>Ranking and diversity tiers\<close>

text \<open>
  \<open>percentDiff <= 0.03\<close> in \<open>randomizeCloseScores\<close>. For a current score of 0 the
  quotient of the source is NaN or Infinity and the comparison is false.
\<close>

definition closeTo :: "real \<Rightarrow> ScoredRepo \<Rightarrow> bool" where
  "closeTo currentScore x =
     (currentScore \<noteq> 0 \<and> \<bar>final (score x) - currentScore\<bar> / currentScore \<le> 0.03)"

text \<open>
  The outer loop takes the entry at \<open>i\<close>, the inner loop extends the group while the
  next entry is close to it, and the group is shuffled. The random order of one group is
  the argument \<open>shuffle\<close>.
\<close>

function randomizeCloseScores :: "(ScoredRepo list \<Rightarrow> ScoredRepo list) \<Rightarrow> ScoredRepo list \<Rightarrow> ScoredRepo list" where
  "randomizeCloseScores shuffle [] = []"
| "randomizeCloseScores shuffle (x # xs) =
     shuffle (x # takeWhile (closeTo (final (score x))) xs) @
     randomizeCloseScores shuffle (dropWhile (closeTo (final (score x))) xs)"
  by pat_completeness auto
termination
  by (relation "measure (\<lambda>(shuffle, xs). length xs)")
     (auto simp: length_dropWhile_le less_Suc_eq_le)

definition isSmall :: "ScoredRepo \<Rightarrow> bool" where
  "isSmall x = (stargazers_count (repo x) \<ge> 50 \<and> stargazers_count (repo x) < 500)"

definition isMedium :: "ScoredRepo \<Rightarrow> bool" where
  "isMedium x = (stargazers_count (repo x) \<ge> 500 \<and> stargazers_count (repo x) < 2000)"

definition isLarge :: "ScoredRepo \<Rightarrow> bool" where
  "isLarge x = (stargazers_count (repo x) \<ge> 2000)"

text \<open>The \<open>for\<close> loop of \<open>applyDiversityTiers\<close>, with its loop variables: the counter
  \<open>i\<close>, the three indices and the result so far. The last branch is the \<open>break\<close>.\<close>

function tierLoop :: "nat \<Rightarrow> ScoredRepo list \<Rightarrow> ScoredRepo list \<Rightarrow> ScoredRepo list \<Rightarrow> nat \<Rightarrow> nat \<Rightarrow> nat \<Rightarrow> nat \<Rightarrow> ScoredRepo list \<Rightarrow> ScoredRepo list" where
  "tierLoop maxResults smallRepos mediumRepos largeRepos i smallIndex mediumIndex largeIndex result =
     (if i < maxResults then
        let cycle = i mod 4 in
        if (cycle = 0 \<or> cycle = 1) \<and> smallIndex < length smallRepos then
          tierLoop maxResults smallRepos mediumRepos largeRepos (i + 1)
            (smallIndex + 1) mediumIndex largeIndex (result @ [smallRepos ! smallIndex])
        else if cycle = 2 \<and> mediumIndex < length mediumRepos then
          tierLoop maxResults smallRepos mediumRepos largeRepos (i + 1)
            smallIndex (mediumIndex + 1) largeIndex (result @ [mediumRepos ! mediumIndex])
        else if cycle = 3 \<and> largeIndex < length largeRepos then
          tierLoop maxResults smallRepos mediumRepos largeRepos (i + 1)
            smallIndex mediumIndex (largeIndex + 1) (result @ [largeRepos ! largeIndex])
        else if smallIndex < length smallRepos then
          tierLoop maxResults smallRepos mediumRepos largeRepos (i + 1)
            (smallIndex + 1) mediumIndex largeIndex (result @ [smallRepos ! smallIndex])
        else if mediumIndex < length mediumRepos then
          tierLoop maxResults smallRepos mediumRepos largeRepos (i + 1)
            smallIndex (mediumIndex + 1) largeIndex (result @ [mediumRepos ! mediumIndex])
        else if largeIndex < length largeRepos then
          tierLoop maxResults smallRepos mediumRepos largeRepos (i + 1)
            smallIndex mediumIndex (largeIndex + 1) (result @ [largeRepos ! largeIndex])
        else result
      else result)"
  by pat_completeness auto
termination
  by (relation "measure (\<lambda>(maxResults, s, m, l, i, si, mi, li, res). maxResults - i)") auto

definition applyDiversityTiers :: "ScoredRepo list \<Rightarrow> ScoredRepo list" where
  "applyDiversityTiers scoredRepos =
     (let smallRepos = filter isSmall scoredRepos;
          mediumRepos = filter isMedium scoredRepos;
          largeRepos = filter isLarge scoredRepos;
          maxResults = min (length scoredRepos) 50
      in tierLoop maxResults smallRepos mediumRepos largeRepos 0 0 0 0 [])"

text \<open>The stable sort by descending final score, then the two passes.\<close>

definition applyDiversityAndRandomization :: "(ScoredRepo list \<Rightarrow> ScoredRepo list) \<Rightarrow> ScoredRepo list \<Rightarrow> ScoredRepo list" where
  "applyDiversityAndRandomization shuffle scoredRepos =
     (let sortedRepos = sort_key (\<lambda>x. - final (score x)) scoredRepos;
          randomizedRepos = randomizeCloseScores shuffle sortedRepos
      in applyDiversityTiers randomizedRepos)"

definition scoreRepositories :: "int \<Rightarrow> (ScoredRepo list \<Rightarrow> ScoredRepo list) \<Rightarrow> RepositoryDetails list \<Rightarrow> NormalizedSkill list \<Rightarrow> ScoringOptions \<Rightarrow> ScoredRepo list" where
  "scoreRepositories now shuffle repos skills options =
     (let scoredRepos =
            map (\<lambda>r. \<lparr>repo = r, score = scoreRepository now r skills options\<rparr>) repos
      in applyDiversityAndRandomization shuffle scoredRepos)"


section \<open>The tier cycle as the specification words it\<close>

text \<open>
  The specification of the diversity pass, written from its words and independent of the
  loop above: cycle the pattern small, small, medium, large; at every step pull the next
  entry of the designated tier, or of the smallest tier that is not exhausted when the
  designated one is; stop when the budget is used up or all three tiers are exhausted.
  \<open>pos\<close> counts the entries emitted so far.
\<close>

datatype Tier = Small | Medium | Large

definition tierPattern :: "Tier list" where
  "tierPattern = [Small, Small, Medium, Large]"

definition exhausted :: "Tier \<Rightarrow> 'a list \<Rightarrow> 'a list \<Rightarrow> 'a list \<Rightarrow> bool" where
  "exhausted t small medium large =
     (case t of Small \<Rightarrow> small = [] | Medium \<Rightarrow> medium = [] | Large \<Rightarrow> large = [])"

definition pickTier :: "nat \<Rightarrow> 'a list \<Rightarrow> 'a list \<Rightarrow> 'a list \<Rightarrow> Tier option" where
  "pickTier pos small medium large =
     (let designated = tierPattern ! (pos mod 4) in
      if \<not> exhausted designated small medium large then Some designated
      else if small \<noteq> [] then Some Small
      else if medium \<noteq> [] then Some Medium
      else if large \<noteq> [] then Some Large
      else None)"

fun cycleTiers :: "nat \<Rightarrow> nat \<Rightarrow> 'a list \<Rightarrow> 'a list \<Rightarrow> 'a list \<Rightarrow> 'a list" where
  "cycleTiers 0 pos small medium large = []"
| "cycleTiers (Suc budget) pos small medium large =
     (case pickTier pos small medium large of
        None \<Rightarrow> []
      | Some Small \<Rightarrow> hd small # cycleTiers budget (pos + 1) (tl small) medium large
      | Some Medium \<Rightarrow> hd medium # cycleTiers budget (pos + 1) small (tl medium) large
      | Some Large \<Rightarrow> hd large # cycleTiers budget (pos + 1) small medium (tl large))"


section \<open>Example inputs\<close>

text \<open>A repository with 100 stars, no issues and no optional data, last touched at time 0,
  and the options that select a mode and nothing else.\<close>

definition exampleRepository :: RepositoryDetails where
  "exampleRepository =
     \<lparr>full_name = ''octo/demo'', description = None, stargazers_count = 100, forks_count = 0,
      open_issues_count = 0, language = None, topics = None, goodFirstIssues = 0,
      created_at = 0, updated_at = 0, pushed_at = 0, homepage = None, license = None,
      enrichedData = None\<rparr>"

definition optionsFor :: "Mode option \<Rightarrow> ScoringOptions" where
  "optionsFor m = \<lparr>mode = m, weights = None, minStars = None, maxStars = None\<rparr>"

text \<open>The example repository with an enrichment as the enricher produces it.\<close>

definition exampleEnrichment :: EnrichedRepositoryData where
  "exampleEnrichment =
     \<lparr>commitAnalysis = Some \<lparr>frequency = 2, recency = 3, contributorDistribution = 0.5,
        averageCommitSize = 1, commitMessageQuality = 0.2, branchActivity = 0.3\<rparr>,
      issueAnalysis = Some \<lparr>responseTime = 12, resolutionRate = 0.5, maintainerActivity = 0.4,
        communityEngagement = 0.2, issueQuality = 0.1, labelUsage = 0.6\<rparr>,
      dependencyAnalysis = Some \<lparr>healthScore = 0.7, securityScore = 0.8, updateFrequency = 0.5,
        dependencyCount = 10, outdatedDependencies = 3, licenseCompatibility = 1\<rparr>,
      readmeAnalysis = Some \<lparr>contentQuality = 0.6, skillKeywords = Some [''react''],
        projectType = ''general'', complexity = 0.3, learningResources = 2,
        setupDifficulty = 0.5\<rparr>\<rparr>"

definition enrichedExample :: RepositoryDetails where
  "enrichedExample = exampleRepository\<lparr>enrichedData := Some exampleEnrichment\<rparr>"

text \<open>The example repository with an enrichment that holds two negative sub-signals.\<close>

definition negativeEnrichment :: EnrichedRepositoryData where
  "negativeEnrichment =
     \<lparr>commitAnalysis = Some \<lparr>frequency = 0, recency = 0, contributorDistribution = - 100,
        averageCommitSize = 0, commitMessageQuality = 0, branchActivity = 0\<rparr>,
      issueAnalysis = Some \<lparr>responseTime = 0, resolutionRate = - 100, maintainerActivity = 0,
        communityEngagement = 0, issueQuality = 0, labelUsage = 0\<rparr>,
      dependencyAnalysis = None,
      readmeAnalysis = None\<rparr>"

definition negativeExample :: RepositoryDetails where
  "negativeExample = exampleRepository\<lparr>enrichedData := Some negativeEnrichment\<rparr>"

text \<open>The same repository with its three timestamps moved by \<open>d\<close> milliseconds.\<close>

definition shiftTime :: "int \<Rightarrow> RepositoryDetails \<Rightarrow> RepositoryDetails" where
  "shiftTime d r =
     r\<lparr>created_at := created_at r + d, updated_at := updated_at r + d,
       pushed_at := pushed_at r + d\<rparr>"

text \<open>The sub-signals of the enrichment that enter a score with a positive weight and
  without a lower clamp are not negative, as the enricher computes them (rates, counts and
  capped sums).\<close>

definition enrichmentNonNegative :: "RepositoryDetails \<Rightarrow> bool" where
  "enrichmentNonNegative r =
     ((case commitAnalysisOf r of
         None \<Rightarrow> True
       | Some a \<Rightarrow> 0 \<le> frequency a \<and> 0 \<le> contributorDistribution a \<and>
           0 \<le> commitMessageQuality a \<and> 0 \<le> branchActivity a) \<and>
      (case issueAnalysisOf r of
         None \<Rightarrow> True
       | Some a \<Rightarrow> 0 \<le> resolutionRate a \<and> 0 \<le> maintainerActivity a \<and>
           0 \<le> communityEngagement a \<and> 0 \<le> issueQuality a \<and> 0 \<le> labelUsage a) \<and>
      (case dependencyAnalysisOf r of
         None \<Rightarrow> True
       | Some a \<Rightarrow> 0 \<le> healthScore a \<and> 0 \<le> securityScore a \<and>
           0 \<le> updateFrequency a \<and> 0 \<le> licenseCompatibility a) \<and>
      (case readmeAnalysisOf r of
         None \<Rightarrow> True
       | Some a \<Rightarrow> 0 \<le> contentQuality a \<and> 0 \<le> learningResources a))"


section \<open>Properties of the skill normalizer\<close>

lemma skillGraph_eq: "skillGraph = map (\<lambda>n. (name n, n)) initialSkills"
  by code_simp

lemma distinct_names: "distinct (map name initialSkills)"
  by code_simp

lemma map_of_skillGraph_Some:
  "map_of skillGraph c = Some n \<longleftrightarrow> n \<in> set initialSkills \<and> name n = c"
proof -
  have d: "distinct (map fst skillGraph)"
    using distinct_names by (simp add: skillGraph_eq comp_def)
  have "map_of skillGraph c = Some n \<longleftrightarrow> (c, n) \<in> set skillGraph"
    using d by simp
  also have "\<dots> \<longleftrightarrow> n \<in> set initialSkills \<and> name n = c"
    by (auto simp: skillGraph_eq)
  finally show ?thesis .
qed

lemma map_of_skillGraph_None:
  "map_of skillGraph c = None \<longleftrightarrow> c \<notin> name ` set initialSkills"
  by (simp add: map_of_eq_None_iff skillGraph_eq image_image)

lemma find_Some_holds: "find P xs = Some x \<Longrightarrow> P x \<and> x \<in> set xs"
  by (induction xs) (auto split: if_splits)

lemma findAliasMatch_Some:
  "findAliasMatch c = Some n \<Longrightarrow> n \<in> set initialSkills \<and> c \<in> set (aliases n)"
  by (auto simp: findAliasMatch_def skillGraph_eq dest!: find_Some_holds)

lemma findAliasMatch_None:
  "findAliasMatch c = None \<longleftrightarrow> (\<forall>n \<in> set initialSkills. c \<notin> set (aliases n))"
  by (auto simp: findAliasMatch_def find_None_iff skillGraph_eq)

lemma firstInGraph_Some:
  "firstInGraph vs = Some n \<Longrightarrow> n \<in> set initialSkills \<and> name n \<in> set vs"
  by (induction vs) (auto simp: map_of_skillGraph_Some split: option.splits)

lemma firstInGraph_Cons_None:
  "firstInGraph (v # vs) = None \<longleftrightarrow> map_of skillGraph v = None \<and> firstInGraph vs = None"
  by (simp split: option.splits)

lemma firstInGraph_None:
  "firstInGraph vs = None \<longleftrightarrow> (\<forall>v \<in> set vs. v \<notin> name ` set initialSkills)"
proof (induction vs)
  case Nil
  show ?case by simp
next
  case (Cons v vs)
  show ?case
    unfolding firstInGraph_Cons_None Cons.IH map_of_skillGraph_None by simp
qed

text \<open>
  Claim C7. A token is resolved by the first stage that matches, in a fixed order. With
  the token trimmed and lowercased: an empty token gives no result; a token that is a
  canonical name gets weight 1.0 and is its own normalized name; otherwise a token that is
  an alias of some node gets weight 0.9 and the name of such a node; otherwise a token one
  of whose variations is a canonical name gets weight 0.8 and that canonical name;
  otherwise the token is kept as it is, in category concept, expanded to itself, with
  weight 0.5. The list with the single skill reactjs is normalized to react with weight 0.9.
\<close>

theorem normalizeSkill_first_match_wins:
  "(toLowerCase (trim skill) = [] \<longrightarrow> normalizeSkill skill = None) \<and>
   (toLowerCase (trim skill) \<noteq> [] \<longrightarrow>
      (\<exists>r. normalizeSkill skill = Some r \<and> original r = skill \<and>
        (if toLowerCase (trim skill) \<in> name ` set initialSkills
         then weight r = 1.0 \<and> normalized r = toLowerCase (trim skill)
         else if \<exists>n \<in> set initialSkills. toLowerCase (trim skill) \<in> set (aliases n)
         then weight r = 0.9 \<and>
           (\<exists>n \<in> set initialSkills. toLowerCase (trim skill) \<in> set (aliases n) \<and> normalized r = name n)
         else if \<exists>v \<in> set (generateVariations (toLowerCase (trim skill))). v \<in> name ` set initialSkills
         then weight r = 0.8 \<and> normalized r \<in> name ` set initialSkills \<and>
           normalized r \<in> set (generateVariations (toLowerCase (trim skill)))
         else weight r = 0.5 \<and> normalized r = toLowerCase (trim skill) \<and>
           category r = ''concept'' \<and> expanded r = [toLowerCase (trim skill)]))) \<and>
   map (\<lambda>r. (normalized r, weight r)) (normalizeSkills None [''reactjs'']) = [(''react'', 0.9)]"
proof (intro conjI impI)
  show "map (\<lambda>r. (normalized r, weight r)) (normalizeSkills None [''reactjs'']) = [(''react'', 0.9)]"
    by code_simp
next
  assume "toLowerCase (trim skill) = []"
  then show "normalizeSkill skill = None" by (simp add: normalizeSkill_def)
next
  define c where "c = toLowerCase (trim skill)"
  assume ne: "toLowerCase (trim skill) \<noteq> []"
  then have ne': "c \<noteq> []" by (simp add: c_def)
  show "\<exists>r. normalizeSkill skill = Some r \<and> original r = skill \<and>
        (if toLowerCase (trim skill) \<in> name ` set initialSkills
         then weight r = 1.0 \<and> normalized r = toLowerCase (trim skill)
         else if \<exists>n \<in> set initialSkills. toLowerCase (trim skill) \<in> set (aliases n)
         then weight r = 0.9 \<and>
           (\<exists>n \<in> set initialSkills. toLowerCase (trim skill) \<in> set (aliases n) \<and> normalized r = name n)
         else if \<exists>v \<in> set (generateVariations (toLowerCase (trim skill))). v \<in> name ` set initialSkills
         then weight r = 0.8 \<and> normalized r \<in> name ` set initialSkills \<and>
           normalized r \<in> set (generateVariations (toLowerCase (trim skill)))
         else weight r = 0.5 \<and> normalized r = toLowerCase (trim skill) \<and>
           category r = ''concept'' \<and> expanded r = [toLowerCase (trim skill)])"
    unfolding c_def[symmetric]
  proof (cases "map_of skillGraph c")
    case (Some n)
    then have "n \<in> set initialSkills" "name n = c" by (simp_all add: map_of_skillGraph_Some)
    then show "\<exists>r. normalizeSkill skill = Some r \<and> original r = skill \<and>
        (if c \<in> name ` set initialSkills
         then weight r = 1.0 \<and> normalized r = c
         else if \<exists>n \<in> set initialSkills. c \<in> set (aliases n)
         then weight r = 0.9 \<and>
           (\<exists>n \<in> set initialSkills. c \<in> set (aliases n) \<and> normalized r = name n)
         else if \<exists>v \<in> set (generateVariations c). v \<in> name ` set initialSkills
         then weight r = 0.8 \<and> normalized r \<in> name ` set initialSkills \<and>
           normalized r \<in> set (generateVariations c)
         else weight r = 0.5 \<and> normalized r = c \<and>
           category r = ''concept'' \<and> expanded r = [c])"
      using Some ne' by (auto simp: normalizeSkill_def c_def[symmetric] fromNode_def)
  next
    case None
    then have notname: "c \<notin> name ` set initialSkills" by (simp add: map_of_skillGraph_None)
    show "\<exists>r. normalizeSkill skill = Some r \<and> original r = skill \<and>
        (if c \<in> name ` set initialSkills
         then weight r = 1.0 \<and> normalized r = c
         else if \<exists>n \<in> set initialSkills. c \<in> set (aliases n)
         then weight r = 0.9 \<and>
           (\<exists>n \<in> set initialSkills. c \<in> set (aliases n) \<and> normalized r = name n)
         else if \<exists>v \<in> set (generateVariations c). v \<in> name ` set initialSkills
         then weight r = 0.8 \<and> normalized r \<in> name ` set initialSkills \<and>
           normalized r \<in> set (generateVariations c)
         else weight r = 0.5 \<and> normalized r = c \<and>
           category r = ''concept'' \<and> expanded r = [c])"
    proof (cases "findAliasMatch c")
      case (Some n)
      then have n: "n \<in> set initialSkills" "c \<in> set (aliases n)"
        using findAliasMatch_Some by blast+
      have "normalizeSkill skill = Some (fromNode skill n 0.9)"
        using Some None ne' by (simp add: normalizeSkill_def c_def[symmetric])
      then show ?thesis using n notname by (auto simp: fromNode_def)
    next
      case noalias: None
      then have na: "\<forall>n \<in> set initialSkills. c \<notin> set (aliases n)"
        by (simp add: findAliasMatch_None)
      show ?thesis
      proof (cases "findFuzzyMatch c")
        case (Some n)
        then have n: "n \<in> set initialSkills" "name n \<in> set (generateVariations c)"
          using firstInGraph_Some unfolding findFuzzyMatch_def by blast+
        have "normalizeSkill skill = Some (fromNode skill n 0.8)"
          using Some None noalias ne' by (simp add: normalizeSkill_def c_def[symmetric])
        then show ?thesis using n notname na by (auto simp: fromNode_def)
      next
        case nofuzzy: None
        then have nf: "\<forall>v \<in> set (generateVariations c). v \<notin> name ` set initialSkills"
          by (simp add: findFuzzyMatch_def firstInGraph_None)
        have "normalizeSkill skill = Some \<lparr>original = skill, normalized = c, category = ''concept'',
                       expanded = [c], weight = 0.5\<rparr>"
          using nofuzzy None noalias ne' by (simp add: normalizeSkill_def c_def[symmetric])
        then show ?thesis using nf notname na by auto
      qed
    qed
  qed
qed

theorem normalizeSkill_first_match_wins_witness:
  "toLowerCase (trim '' ReactJS '') \<noteq> [] \<and>
   toLowerCase (trim '' ReactJS '') \<notin> name ` set initialSkills \<and>
   (\<exists>n \<in> set initialSkills. toLowerCase (trim '' ReactJS '') \<in> set (aliases n)) \<and>
   (\<exists>r. normalizeSkill '' ReactJS '' = Some r \<and> original r = '' ReactJS '' \<and> weight r = 0.9)"
proof -
  have c: "toLowerCase (trim '' ReactJS '') = ''reactjs''"
    by code_simp
  have a: "''reactjs'' \<notin> name ` set initialSkills"
    by code_simp
  have b: "\<exists>n \<in> set initialSkills. ''reactjs'' \<in> set (aliases n)"
    by code_simp
  show ?thesis
    using normalizeSkill_first_match_wins [of "'' ReactJS ''"] a b
    unfolding c by auto
qed

lemma map_set_fresh: "k \<notin> fst ` set m \<Longrightarrow> map_set m k v = m @ [(k, v)]"
  by (induction m) auto

lemma normalizeSkill_weight_pos: "normalizeSkill skill = Some n \<Longrightarrow> 0 < weight n"
  by (auto simp: normalizeSkill_def fromNode_def Let_def split: if_splits option.splits)

lemma addSkill_storeSkill:
  "addSkill m skill = (case normalizeSkill skill of None \<Rightarrow> m | Some n \<Rightarrow> storeSkill m n)"
  by (simp add: addSkill_def)

lemma foldl_addSkill: "foldl addSkill m skills = foldl storeSkill m (List.map_filter normalizeSkill skills)"
  by (induction skills arbitrary: m) (auto simp: addSkill_storeSkill split: option.splits)

lemma accumulates_storeSkill:
  assumes "accumulates m rs"
  shows "accumulates (storeSkill m n) (rs @ [n])"
proof -
  let ?key = "\<lambda>x. toLowerCase (normalized x)"
  from assms have d: "distinct (map fst m)"
    and keys: "fst ` set m = ?key ` set rs"
    and ws: "\<And>k s. (k, s) \<in> set m \<Longrightarrow>
          k = ?key s \<and> weight s = sum_list (map weight (filter (\<lambda>x. ?key x = k) rs))"
    by (auto simp: accumulates_def)
  show ?thesis
  proof (cases "map_of m (?key n) = None")
    case True
    then have fresh: "?key n \<notin> fst ` set m"
      by (simp add: map_of_eq_None_iff)
    then have st: "storeSkill m n = m @ [(?key n, n)]"
      using True by (simp add: storeSkill_def Let_def map_set_fresh)
    have other: "k \<noteq> ?key n" if "(k, s) \<in> set m" for k s
      using that fresh by force
    have nofilter: "filter (\<lambda>x. ?key x = ?key n) rs = []"
      unfolding filter_empty_conv using fresh keys by (metis imageI)
    have 1: "distinct (map fst (m @ [(?key n, n)]))"
      using d fresh by simp
    have 2: "fst ` set (m @ [(?key n, n)]) = ?key ` set (rs @ [n])"
      using keys by auto
    have 3: "k = ?key s \<and> weight s = sum_list (map weight (filter (\<lambda>x. ?key x = k) (rs @ [n])))"
      if "(k, s) \<in> set (m @ [(?key n, n)])" for k s
    proof (cases "(k, s) \<in> set m")
      case True
      then show ?thesis using ws[OF True] other[OF True] by auto
    next
      case False
      with that have "k = ?key n" "s = n" by auto
      then show ?thesis using nofilter by simp
    qed
    show ?thesis
      unfolding st accumulates_def using 1 2 3 by blast
  next
    case False
    then have st: "storeSkill m n = addWeight m (?key n) (weight n)"
      unfolding storeSkill_def Let_def by (simp only: if_False)
    have fstmap: "map fst (addWeight m k w) = map fst m" for k w
      by (induction m) (auto simp: addWeight_def)
    have setfst: "fst ` set (addWeight m k w) = fst ` set m" for k w
      using fstmap[of k w] by (metis list.set_map)
    from False have present: "?key n \<in> fst ` set m"
      by (simp add: map_of_eq_None_iff)
    have 1: "distinct (map fst (addWeight m (?key n) (weight n)))"
      using d by (simp add: fstmap)
    have 2: "fst ` set (addWeight m (?key n) (weight n)) = ?key ` set (rs @ [n])"
      using keys present by (auto simp: setfst)
    have 3: "k = ?key s \<and> weight s = sum_list (map weight (filter (\<lambda>x. ?key x = k) (rs @ [n])))"
      if "(k, s) \<in> set (addWeight m (?key n) (weight n))" for k s
    proof -
      from that obtain s0 where s0: "(k, s0) \<in> set m"
        and s: "s = (if k = ?key n then s0\<lparr>weight := weight s0 + weight n\<rparr> else s0)"
        by (auto simp: addWeight_def split: if_splits)
      show ?thesis using ws[OF s0] s by auto
    qed
    show ?thesis
      unfolding st accumulates_def using 1 2 3 by blast
  qed
qed

lemma accumulates_foldl:
  "accumulates m rs0 \<Longrightarrow> accumulates (foldl storeSkill m rs) (rs0 @ rs)"
proof (induction rs arbitrary: m rs0)
  case Nil
  then show ?case by simp
next
  case (Cons n rs)
  from Cons.IH[OF accumulates_storeSkill[OF Cons.prems, of n]]
  show ?case by simp
qed

lemma resolved_sort: "mset (resolved (sort skills)) = mset (resolved skills)"
  by (simp add: resolved_def List.map_filter_def)

lemma sum_list_filter_mset:
  fixes w :: "'a \<Rightarrow> real"
  assumes "mset xs = mset ys"
  shows "sum_list (map w (filter P xs)) = sum_list (map w (filter P ys))"
proof -
  have "mset (map w (filter P xs)) = mset (map w (filter P ys))"
    using assms by (metis mset_filter mset_map)
  then show ?thesis
    by (metis sum_mset_sum_list)
qed

lemma accumulates_normalizeSkills:
  "accumulates (foldl addSkill [] skills) (resolved skills)"
  unfolding foldl_addSkill resolved_def
  using accumulates_foldl[of "[]" "[]"] by (simp add: accumulates_def)

lemma resolved_weight_pos: "n \<in> set (resolved skills) \<Longrightarrow> 0 < weight n"
  by (auto simp: resolved_def List.map_filter_def dest: normalizeSkill_weight_pos)

lemma sum_list_pos_nonempty:
  fixes xs :: "real list"
  shows "xs \<noteq> [] \<Longrightarrow> (\<forall>x \<in> set xs. 0 < x) \<Longrightarrow> 0 < sum_list xs"
  by (induction xs) (auto simp: add_pos_nonneg sum_list_nonneg less_imp_le)


text \<open>
  Claim C6. For every list of skills (with a cache miss), the normalized names of the
  output, lowercased, are pairwise distinct and are exactly the keys of the skills that
  resolve; the weight of every entry is the sum of the weights of all input skills that
  resolve to its key, so a repeated key adds its weight to the existing entry, with no
  averaging and no clamp; every weight is positive, and a weight can exceed 1.
\<close>

theorem normalizeSkills_accumulates_duplicates:
  "distinct (map (\<lambda>s. toLowerCase (normalized s)) (normalizeSkills None skills)) \<and>
   (\<lambda>s. toLowerCase (normalized s)) ` set (normalizeSkills None skills) =
     (\<lambda>n. toLowerCase (normalized n)) ` set (List.map_filter normalizeSkill skills) \<and>
   (\<forall>s \<in> set (normalizeSkills None skills).
      weight s = sum_list (map weight
        (filter (\<lambda>n. toLowerCase (normalized n) = toLowerCase (normalized s))
           (List.map_filter normalizeSkill skills))) \<and>
      0 < weight s) \<and>
   (\<exists>s \<in> set (normalizeSkills None [''js'', ''JS'', ''javascript'']). 1 < weight s)"
proof -
  let ?key = "\<lambda>x. toLowerCase (normalized x)"
  let ?m = "foldl addSkill [] (sort skills)"
  let ?rs = "List.map_filter normalizeSkill skills"
  have out: "normalizeSkills None skills = map snd ?m"
    by (cases skills) (simp_all add: normalizeSkills_def)
  have perm: "mset (resolved (sort skills)) = mset ?rs"
    using resolved_sort by (simp add: resolved_def)
  have acc: "accumulates ?m (resolved (sort skills))"
    by (rule accumulates_normalizeSkills)
  then have d: "distinct (map fst ?m)"
    and keys0: "fst ` set ?m = ?key ` set (resolved (sort skills))"
    and ws0: "\<And>k s. (k, s) \<in> set ?m \<Longrightarrow>
          k = ?key s \<and>
          weight s = sum_list (map weight (filter (\<lambda>x. ?key x = k) (resolved (sort skills))))"
    by (auto simp: accumulates_def)
  have keys: "fst ` set ?m = ?key ` set ?rs"
    using keys0 perm by (metis set_mset_mset)
  have ws: "k = ?key s \<and> weight s = sum_list (map weight (filter (\<lambda>x. ?key x = k) ?rs))"
    if "(k, s) \<in> set ?m" for k s
    using ws0[OF that] sum_list_filter_mset[OF perm, of weight "\<lambda>x. ?key x = k"] by simp
  have keyfst: "map ?key (map snd ?m) = map fst ?m"
    using ws by auto
  have 1: "distinct (map ?key (normalizeSkills None skills))"
    unfolding out keyfst by (rule d)
  have 2: "?key ` set (normalizeSkills None skills) = ?key ` set ?rs"
    using keyfst keys unfolding out by (metis list.set_map)
  have 3: "weight s = sum_list (map weight (filter (\<lambda>n. ?key n = ?key s) ?rs)) \<and> 0 < weight s"
    if "s \<in> set (normalizeSkills None skills)" for s
  proof -
    from that obtain k where ks: "(k, s) \<in> set ?m"
      unfolding out by auto
    from ws[OF ks] have k: "k = ?key s"
      and w: "weight s = sum_list (map weight (filter (\<lambda>x. ?key x = ?key s) ?rs))"
      by auto
    have "?key s \<in> ?key ` set ?rs"
      using ks k keys by (metis fst_conv imageI)
    then have ne: "map weight (filter (\<lambda>x. ?key x = ?key s) ?rs) \<noteq> []"
      by (auto simp: filter_empty_conv)
    have pos: "\<forall>x \<in> set (map weight (filter (\<lambda>x. ?key x = ?key s) ?rs)). 0 < x"
      using resolved_weight_pos by (auto simp: resolved_def)
    show ?thesis
      using w sum_list_pos_nonempty[OF ne pos] by simp
  qed
  have 4: "\<exists>s \<in> set (normalizeSkills None [''js'', ''JS'', ''javascript'']). 1 < weight s"
    by code_simp
  show ?thesis
    using 1 2 3 4 by blast
qed

theorem normalizeSkills_accumulates_duplicates_witness:
  "length (normalizeSkills None [''js'', ''React'', ''JS'']) = 2 \<and>
   (\<exists>s \<in> set (normalizeSkills None [''js'', ''React'', ''JS'']).
      weight s = sum_list (map weight
        (filter (\<lambda>n. toLowerCase (normalized n) = toLowerCase (normalized s))
           (List.map_filter normalizeSkill [''js'', ''React'', ''JS'']))) \<and>
      0 < weight s)"
proof -
  have len: "length (normalizeSkills None [''js'', ''React'', ''JS'']) = 2"
    by code_simp
  then obtain s where "s \<in> set (normalizeSkills None [''js'', ''React'', ''JS''])"
    by (cases "normalizeSkills None [''js'', ''React'', ''JS'']") auto
  then show ?thesis
    using normalizeSkills_accumulates_duplicates [of "[''js'', ''React'', ''JS'']"] len
    by blast
qed

lemma normalizeSkills_js_twice:
  "normalizeSkills None [''js'', ''js''] =
     [\<lparr>original = ''js'', normalized = ''javascript'', category = ''language'',
       expanded = [''javascript'', ''js'', ''ecmascript'', ''frontend'', ''web'', ''browser''],
       weight = 1.8\<rparr>]"
  by code_simp

lemma normalizeSkill_js_value:
  "map_of skillGraph ''js'' = None \<and>
   normalizeSkill ''js'' = Some (fromNode ''js'' (hd initialSkills) 0.9)"
  by code_simp

text \<open>
  Claim C1 as the specification states it, that the list js, js gives one entry of weight
  2.0, does not hold: js is not a canonical name of the graph.
\<close>

theorem js_twice_weight_not_two:
  "\<not> (\<exists>s. normalizeSkills None [''js'', ''js''] = [s] \<and> weight s = 2.0)"
  by (simp add: normalizeSkills_js_twice)

text \<open>
  Claim C1, amended. For the list js, js the normalizer returns exactly one entry, named
  javascript, of weight 1.8: js is no key of the graph, both occurrences resolve through
  the alias of the first node at 0.9 each, and the weight of the second is added to the
  entry of the first.
\<close>

theorem js_twice_weight_from_alias:
  "(\<exists>s. normalizeSkills None [''js'', ''js''] = [s] \<and> normalized s = ''javascript'' \<and>
        weight s = 1.8) \<and>
   map_of skillGraph ''js'' = None \<and>
   normalizeSkill ''js'' = Some (fromNode ''js'' (hd initialSkills) 0.9)"
  using normalizeSkill_js_value by (simp add: normalizeSkills_js_twice)


section \<open>Properties of the scorers\<close>

text \<open>
  Claim C8. The stars score is 0 for 0 stars, 0.5 above 20000 stars, 0.6 above 5000,
  0.7 above 1000, and the smaller of stars/1000 and 0.7 up to 1000 stars; it never exceeds
  0.7 and does not increase with the stars above 1000.
\<close>

theorem calculateStarsScore_tiers:
  "(stars = 0 \<longrightarrow> calculateStarsScore stars = 0) \<and>
   (stars > 20000 \<longrightarrow> calculateStarsScore stars = 0.5) \<and>
   (stars > 5000 \<and> stars \<le> 20000 \<longrightarrow> calculateStarsScore stars = 0.6) \<and>
   (stars > 1000 \<and> stars \<le> 5000 \<longrightarrow> calculateStarsScore stars = 0.7) \<and>
   (stars \<le> 1000 \<longrightarrow> calculateStarsScore stars = min (real stars / 1000) 0.7) \<and>
   calculateStarsScore stars \<le> 0.7 \<and>
   (1000 < stars \<and> stars \<le> stars2 \<longrightarrow> calculateStarsScore stars2 \<le> calculateStarsScore stars)"
  by (auto simp: calculateStarsScore_def)

theorem calculateStarsScore_tiers_witness:
  "calculateStarsScore 0 = 0 \<and> calculateStarsScore 25000 = 0.5 \<and>
   calculateStarsScore 6000 = 0.6 \<and> calculateStarsScore 1500 = 0.7 \<and>
   calculateStarsScore 300 = 0.3 \<and>
   (1000 :: nat) < 1500 \<and> (1500 :: nat) \<le> 6000 \<and>
   calculateStarsScore 6000 \<le> calculateStarsScore 1500"
  using calculateStarsScore_tiers [of 0 0] calculateStarsScore_tiers [of 25000 25000]
    calculateStarsScore_tiers [of 6000 6000] calculateStarsScore_tiers [of 1500 6000]
    calculateStarsScore_tiers [of 300 300]
  by simp

text \<open>
  Claim C2 as the specification states it does not hold: in quick-wins mode a repository
  with no good first issues and no open issues gets the penalty 0.5 for the open issues and
  nothing for the good first issues, so not two heavy penalties added together.
\<close>

theorem quick_wins_no_penalty_for_zero_good_first_issues:
  "goodFirstIssues exampleRepository = 0 \<and> open_issues_count exampleRepository = 0 \<and>
   calculateModePenalties 0 exampleRepository (optionsFor (Some QuickWins)) = 0.5 \<and>
   calculateModePenalties 0 (exampleRepository\<lparr>goodFirstIssues := 3\<rparr>)
     (optionsFor (Some QuickWins)) = 0.5 \<and>
   \<not> (0.5 + 0.5 \<le> calculateModePenalties 0 exampleRepository (optionsFor (Some QuickWins)))"
  by (simp add: calculateModePenalties_def exampleRepository_def optionsFor_def daysSince_def)

text \<open>
  Claim C2, amended. In quick-wins mode a repository with no open issues gets the penalty
  0.5 for having nothing to contribute to, added without a cap to the penalty for few
  stars, for more than 10000 stars and for staleness; the number of good first issues
  does not change the penalties of this mode.
\<close>

theorem quick_wins_zero_open_issues_penalty:
  "mode options = Some QuickWins \<and> open_issues_count r = 0 \<longrightarrow>
     calculateModePenalties now r options =
       (if stargazers_count r < 10 then 0.3 else if stargazers_count r < 20 then 0.15 else 0) +
       0.5 +
       (if stargazers_count r > 10000 then 0.3 else 0) +
       (if daysSince now (updated_at r) > 180 then 0.3 else 0) \<and>
     calculateModePenalties now (r\<lparr>goodFirstIssues := g\<rparr>) options =
       calculateModePenalties now r options"
  by (simp add: calculateModePenalties_def)

theorem quick_wins_zero_open_issues_penalty_witness:
  "mode (optionsFor (Some QuickWins)) = Some QuickWins \<and>
   open_issues_count exampleRepository = 0 \<and>
   calculateModePenalties 0 exampleRepository (optionsFor (Some QuickWins)) = 0.5 \<and>
   calculateModePenalties 0 (exampleRepository\<lparr>goodFirstIssues := 7\<rparr>)
     (optionsFor (Some QuickWins)) =
   calculateModePenalties 0 exampleRepository (optionsFor (Some QuickWins))"
  using quick_wins_zero_open_issues_penalty
    [of "optionsFor (Some QuickWins)" exampleRepository 0 7]
  by (simp add: exampleRepository_def optionsFor_def daysSince_def)


lemma example_final_fresh:
  "final (scoreRepository 0 exampleRepository [] (optionsFor None)) = 0.15024"
  by (simp add: scoreRepository_def exampleRepository_def optionsFor_def modeOrDefault_def
      getModeWeights_def overrideWeights_def calculateRelevanceScore_def
      calculateLanguageMatch_def calculateTopicMatch_def calculateReadmeMatch_def
      calculateSkillMatchScore_def skillKeywordsOfReadme_def readmeAnalysisOf_def
      calculateQualityScore_def calculateStarsScore_def calculateActivityScore_def
      daysSinceActivity_def daysSince_def msPerDay_def calculateDocumentationScore_def
      calculateCommitActivityScore_def commitAnalysisOf_def calculateDependencyHealthScore_def
      dependencyAnalysisOf_def calculateReadmeQualityScore_def calculateOpportunityScore_def
      calculateIssueScore_def calculateContributorScore_def calculateIssueResponseScore_def
      issueAnalysisOf_def applyModeBonuses_def calculateSizePenalty_def
      calculateModePenalties_def modeBonus_def applyFreshnessBoost_def truthy_def text_of_def)

lemma example_final_stale:
  "final (scoreRepository 8640000000 exampleRepository [] (optionsFor None)) = 0.0832"
  by (simp add: scoreRepository_def exampleRepository_def optionsFor_def modeOrDefault_def
      getModeWeights_def overrideWeights_def calculateRelevanceScore_def
      calculateLanguageMatch_def calculateTopicMatch_def calculateReadmeMatch_def
      calculateSkillMatchScore_def skillKeywordsOfReadme_def readmeAnalysisOf_def
      calculateQualityScore_def calculateStarsScore_def calculateActivityScore_def
      daysSinceActivity_def daysSince_def msPerDay_def calculateDocumentationScore_def
      calculateCommitActivityScore_def commitAnalysisOf_def calculateDependencyHealthScore_def
      dependencyAnalysisOf_def calculateReadmeQualityScore_def calculateOpportunityScore_def
      calculateIssueScore_def calculateContributorScore_def calculateIssueResponseScore_def
      issueAnalysisOf_def applyModeBonuses_def calculateSizePenalty_def
      calculateModePenalties_def modeBonus_def applyFreshnessBoost_def truthy_def text_of_def)

text \<open>
  Claim C4 as the specification states it does not hold: the same repository, skills and
  options scored at time 0 and one hundred days later give different scores.
\<close>

theorem scoreRepository_depends_on_clock:
  "scoreRepository 0 exampleRepository [] (optionsFor None) \<noteq>
   scoreRepository 8640000000 exampleRepository [] (optionsFor None)"
proof
  assume "scoreRepository 0 exampleRepository [] (optionsFor None) =
    scoreRepository 8640000000 exampleRepository [] (optionsFor None)"
  then have "final (scoreRepository 0 exampleRepository [] (optionsFor None)) =
    final (scoreRepository 8640000000 exampleRepository [] (optionsFor None))"
    by simp
  then show False
    by (simp add: example_final_fresh example_final_stale)
qed

lemma daysSince_shift: "daysSince (now + d) (t + d) = daysSince now t"
  by (simp add: daysSince_def)

lemma daysSinceActivity_shift: "daysSinceActivity (now + d) (shiftTime d r) = daysSinceActivity now r"
proof -
  have "max (updated_at r + d) (pushed_at r + d) = max (updated_at r) (pushed_at r) + d"
    by simp
  then show ?thesis
    by (simp add: daysSinceActivity_def shiftTime_def daysSince_shift)
qed

lemma shiftTime_fields:
  "description (shiftTime d r) = description r"
  "stargazers_count (shiftTime d r) = stargazers_count r"
  "forks_count (shiftTime d r) = forks_count r"
  "open_issues_count (shiftTime d r) = open_issues_count r"
  "language (shiftTime d r) = language r"
  "topics (shiftTime d r) = topics r"
  "goodFirstIssues (shiftTime d r) = goodFirstIssues r"
  "homepage (shiftTime d r) = homepage r"
  "license (shiftTime d r) = license r"
  "enrichedData (shiftTime d r) = enrichedData r"
  "created_at (shiftTime d r) = created_at r + d"
  "updated_at (shiftTime d r) = updated_at r + d"
  by (simp_all add: shiftTime_def)

lemma shift_relevance:
  "calculateLanguageMatch (shiftTime d r) skills = calculateLanguageMatch r skills"
  "calculateTopicMatch (shiftTime d r) skills = calculateTopicMatch r skills"
  "calculateReadmeMatch (shiftTime d r) skills = calculateReadmeMatch r skills"
  "calculateSkillMatchScore (shiftTime d r) skills = calculateSkillMatchScore r skills"
  by (simp_all only: calculateLanguageMatch_def calculateTopicMatch_def calculateReadmeMatch_def
      calculateSkillMatchScore_def skillKeywordsOfReadme_def readmeAnalysisOf_def shiftTime_fields)

lemma shift_static:
  "calculateDocumentationScore (shiftTime d r) = calculateDocumentationScore r"
  "calculateIssueScore (shiftTime d r) = calculateIssueScore r"
  "calculateContributorScore (shiftTime d r) = calculateContributorScore r"
  "calculateCommitActivityScore (shiftTime d r) = calculateCommitActivityScore r"
  "calculateIssueResponseScore (shiftTime d r) = calculateIssueResponseScore r"
  "calculateDependencyHealthScore (shiftTime d r) = calculateDependencyHealthScore r"
  "calculateReadmeQualityScore (shiftTime d r) = calculateReadmeQualityScore r"
  "calculateSizePenalty (shiftTime d r) = calculateSizePenalty r"
  by (simp_all only: calculateDocumentationScore_def calculateIssueScore_def
      calculateContributorScore_def calculateCommitActivityScore_def
      calculateIssueResponseScore_def calculateDependencyHealthScore_def
      calculateReadmeQualityScore_def calculateSizePenalty_def commitAnalysisOf_def
      issueAnalysisOf_def dependencyAnalysisOf_def readmeAnalysisOf_def shiftTime_fields)

lemma shift_activity:
  "calculateActivityScore (now + d) (shiftTime d r) = calculateActivityScore now r"
  by (simp only: calculateActivityScore_def daysSinceActivity_shift)

lemma shift_penalties:
  "calculateModePenalties (now + d) (shiftTime d r) options = calculateModePenalties now r options"
  by (simp only: calculateModePenalties_def shiftTime_fields daysSince_shift)

lemma shift_bonus:
  "modeBonus (now + d) (shiftTime d r) options = modeBonus now r options"
  by (simp only: modeBonus_def descriptionIncludes_def someTopicIn_def shiftTime_fields
      daysSince_shift)

text \<open>
  Claim C4, amended. The score is a function of the repository, the skills, the options
  and the current time, and it depends on the current time only through the time elapsed
  since \<open>created_at\<close>, \<open>updated_at\<close> and \<open>pushed_at\<close>: moving the clock and the three
  timestamps by the same amount leaves the whole score unchanged.
\<close>

theorem scoreRepository_time_shift:
  "scoreRepository (now + d) (shiftTime d r) skills options = scoreRepository now r skills options"
  by (simp only: scoreRepository_def calculateRelevanceScore_def calculateQualityScore_def
      calculateOpportunityScore_def applyModeBonuses_def applyFreshnessBoost_def
      shift_relevance shift_static shift_activity shift_penalties shift_bonus
      daysSinceActivity_shift shiftTime_fields)

theorem scoreRepository_time_shift_witness:
  "scoreRepository 8640000000 (shiftTime 8640000000 exampleRepository) [] (optionsFor None) =
   scoreRepository 0 exampleRepository [] (optionsFor None)"
  using scoreRepository_time_shift [of 0 8640000000 exampleRepository "[]" "optionsFor None"]
  by simp

lemma languageMatch_bounds:
  "0 \<le> calculateLanguageMatch r skills \<and> calculateLanguageMatch r skills \<le> 1"
  by (simp add: calculateLanguageMatch_def Let_def)

lemma topicMatch_bounds:
  "0 \<le> calculateTopicMatch r skills \<and> calculateTopicMatch r skills \<le> 1"
  by (simp add: calculateTopicMatch_def Let_def split: option.splits)

lemma readmeMatch_bounds:
  "0 \<le> calculateReadmeMatch r skills \<and> calculateReadmeMatch r skills \<le> 1"
  by (simp add: calculateReadmeMatch_def Let_def)

lemma skillMatch_bounds:
  "0 \<le> calculateSkillMatchScore r skills \<and> calculateSkillMatchScore r skills \<le> 1"
  by (simp add: calculateSkillMatchScore_def Let_def split: option.splits)

lemma relevance_bounds:
  "0 \<le> calculateRelevanceScore r skills options \<and> calculateRelevanceScore r skills options \<le> 1"
proof -
  note b = languageMatch_bounds[of r skills] topicMatch_bounds[of r skills]
    readmeMatch_bounds[of r skills] skillMatch_bounds[of r skills]
  consider "mode options = Some Learning" | "mode options = Some QuickWins"
    | "mode options \<noteq> Some Learning" "mode options \<noteq> Some QuickWins"
    by blast
  then show ?thesis
  proof cases
    case 1
    then show ?thesis using b by (simp add: calculateRelevanceScore_def)
  next
    case 2
    then show ?thesis using b by (simp add: calculateRelevanceScore_def)
  next
    case 3
    then show ?thesis using b by (simp add: calculateRelevanceScore_def)
  qed
qed

lemma starsScore_bounds: "0 \<le> calculateStarsScore n \<and> calculateStarsScore n \<le> 1"
  by (auto simp: calculateStarsScore_def min_def)

lemma activityScore_bounds:
  "0 \<le> calculateActivityScore now r \<and> calculateActivityScore now r \<le> 1"
  by (simp add: calculateActivityScore_def Let_def)

lemma documentationScore_bounds:
  "0 \<le> calculateDocumentationScore r \<and> calculateDocumentationScore r \<le> 1"
  by (simp add: calculateDocumentationScore_def Let_def split: option.splits)

lemma issueScore_bounds: "0 \<le> calculateIssueScore r \<and> calculateIssueScore r \<le> 1"
  by (simp add: calculateIssueScore_def Let_def)

lemma contributorScore_bounds:
  "0 \<le> calculateContributorScore r \<and> calculateContributorScore r \<le> 1"
proof -
  have "0 \<le> min (real (forks_count r) / 100) 1" "min (real (forks_count r) / 100) 1 \<le> 1"
    "0 \<le> min (real (stargazers_count r) / 1000) 1" "min (real (stargazers_count r) / 1000) 1 \<le> 1"
    by simp_all
  then show ?thesis
    unfolding calculateContributorScore_def Let_def by linarith
qed

lemma enriched_upper:
  "calculateCommitActivityScore r \<le> 1" "calculateIssueResponseScore r \<le> 1"
  "calculateDependencyHealthScore r \<le> 1" "calculateReadmeQualityScore r \<le> 1"
  by (simp_all add: calculateCommitActivityScore_def calculateIssueResponseScore_def
      calculateDependencyHealthScore_def calculateReadmeQualityScore_def Let_def
      split: option.splits)

lemma commitActivity_nonneg:
  "enrichmentNonNegative r \<Longrightarrow> 0 \<le> calculateCommitActivityScore r"
  by (auto simp: enrichmentNonNegative_def calculateCommitActivityScore_def Let_def
      split: option.splits)

lemma issueResponse_nonneg:
  "enrichmentNonNegative r \<Longrightarrow> 0 \<le> calculateIssueResponseScore r"
  by (auto simp: enrichmentNonNegative_def calculateIssueResponseScore_def Let_def
      split: option.splits)

lemma dependencyHealth_nonneg:
  "enrichmentNonNegative r \<Longrightarrow> 0 \<le> calculateDependencyHealthScore r"
  by (auto simp: enrichmentNonNegative_def calculateDependencyHealthScore_def Let_def
      split: option.splits)

lemma readmeQuality_nonneg:
  "enrichmentNonNegative r \<Longrightarrow> 0 \<le> calculateReadmeQualityScore r"
  by (auto simp: enrichmentNonNegative_def calculateReadmeQualityScore_def Let_def
      split: option.splits)


lemma quality_upper: "calculateQualityScore now r options \<le> 1"
  by (simp add: calculateQualityScore_def Let_def split: prod.splits)

lemma quality_nonneg:
  assumes "enrichmentNonNegative r"
  shows "0 \<le> calculateQualityScore now r options"
proof -
  note b = starsScore_bounds[of "stargazers_count r"] activityScore_bounds[of now r]
    documentationScore_bounds[of r] commitActivity_nonneg[OF assms]
    dependencyHealth_nonneg[OF assms] readmeQuality_nonneg[OF assms]
  have base: "0 \<le> calculateStarsScore (stargazers_count r) * w1 +
      calculateActivityScore now r * w2 + calculateDocumentationScore r * w3 +
      calculateCommitActivityScore r * w4 + calculateDependencyHealthScore r * w5 +
      calculateReadmeQualityScore r * w6"
    if "0 \<le> w1" "0 \<le> w2" "0 \<le> w3" "0 \<le> w4" "0 \<le> w5" "0 \<le> w6"
    for w1 w2 w3 w4 w5 w6 :: real
    using that b by (intro add_nonneg_nonneg mult_nonneg_nonneg) simp_all
  have fk: "0 \<le> min (real (forks_count r) / 20) (0.05 :: real)"
    by simp
  consider "mode options = Some Learning" | "mode options = Some QuickWins"
    | "mode options \<noteq> Some Learning" "mode options \<noteq> Some QuickWins"
    by blast
  then show ?thesis
  proof cases
    case 1
    then show ?thesis
      using base[of "0.25" "0.15" "0.25" "0.15" "0.1" "0.1"] fk
      by (simp add: calculateQualityScore_def Let_def)
  next
    case 2
    then show ?thesis
      using base[of "0.4" "0.25" "0.1" "0.15" "0.05" "0.05"] fk
      by (simp add: calculateQualityScore_def Let_def)
  next
    case 3
    then show ?thesis
      using base[of "0.3" "0.2" "0.15" "0.15" "0.1" "0.1"] fk
      by (simp add: calculateQualityScore_def Let_def)
  qed
qed

lemma opportunity_upper: "calculateOpportunityScore r options \<le> 1"
proof -
  note b = issueScore_bounds[of r] contributorScore_bounds[of r] enriched_upper(2)[of r]
  consider "mode options = Some Learning" | "mode options = Some QuickWins"
    | "mode options \<noteq> Some Learning" "mode options \<noteq> Some QuickWins"
    by blast
  then show ?thesis
  proof cases
    case 1
    then show ?thesis using b by (simp add: calculateOpportunityScore_def)
  next
    case 2
    then show ?thesis using b by (simp add: calculateOpportunityScore_def)
  next
    case 3
    then show ?thesis using b by (simp add: calculateOpportunityScore_def)
  qed
qed

lemma opportunity_nonneg:
  assumes "enrichmentNonNegative r"
  shows "0 \<le> calculateOpportunityScore r options"
proof -
  note b = issueScore_bounds[of r] contributorScore_bounds[of r] issueResponse_nonneg[OF assms]
  consider "mode options = Some Learning" | "mode options = Some QuickWins"
    | "mode options \<noteq> Some Learning" "mode options \<noteq> Some QuickWins"
    by blast
  then show ?thesis
  proof cases
    case 1
    then show ?thesis using b by (simp add: calculateOpportunityScore_def)
  next
    case 2
    then show ?thesis using b by (simp add: calculateOpportunityScore_def)
  next
    case 3
    then show ?thesis using b by (simp add: calculateOpportunityScore_def)
  qed
qed

lemma applyModeBonuses_eq:
  "applyModeBonuses now baseScore r options =
     max 0 (min (baseScore + modeBonus now r options -
       (calculateSizePenalty r + calculateModePenalties now r options)) 1)"
  by (simp add: applyModeBonuses_def)

lemma scoreRepository_fields:
  "relevance (scoreRepository now r skills options) = calculateRelevanceScore r skills options"
  "quality (scoreRepository now r skills options) = calculateQualityScore now r options"
  "opportunity (scoreRepository now r skills options) = calculateOpportunityScore r options"
  "final (scoreRepository now r skills options) =
     applyFreshnessBoost now
       (applyModeBonuses now
          (calculateRelevanceScore r skills options *
             ScoringWeights.relevance
               (overrideWeights (getModeWeights (modeOrDefault options)) (weights options)) +
           calculateQualityScore now r options *
             ScoringWeights.quality
               (overrideWeights (getModeWeights (modeOrDefault options)) (weights options)) +
           calculateOpportunityScore r options *
             ScoringWeights.opportunity
               (overrideWeights (getModeWeights (modeOrDefault options)) (weights options)))
          r options) r"
  by (simp_all add: scoreRepository_def Let_def)

lemma negativeExample_scores:
  "calculateCommitActivityScore negativeExample = - 19.7"
  "calculateIssueResponseScore negativeExample = - 24.7"
  "calculateDependencyHealthScore negativeExample = 0"
  "calculateReadmeQualityScore negativeExample = 0"
  "calculateStarsScore 100 = 0.1"
  "calculateActivityScore 0 negativeExample = 1"
  "calculateDocumentationScore negativeExample = 0"
  "calculateIssueScore negativeExample = 0.5"
  "calculateContributorScore negativeExample = 0.04"
  by (simp_all add: negativeExample_def negativeEnrichment_def exampleRepository_def
      calculateCommitActivityScore_def commitAnalysisOf_def calculateIssueResponseScore_def
      issueAnalysisOf_def calculateDependencyHealthScore_def dependencyAnalysisOf_def
      calculateReadmeQualityScore_def readmeAnalysisOf_def calculateStarsScore_def
      calculateActivityScore_def daysSinceActivity_def daysSince_def msPerDay_def
      calculateDocumentationScore_def calculateIssueScore_def calculateContributorScore_def
      truthy_def text_of_def)

lemma negativeExample_counts:
  "stargazers_count negativeExample = 100" "forks_count negativeExample = 0"
  by (simp_all add: negativeExample_def exampleRepository_def)

text \<open>
  Claim C5 as the specification states it, that the dimension scores of every repository
  lie in [0, 1.2], does not hold: the scorers over enriched data cap their sum at 1 and
  have no lower clamp, so for the example with a contributor distribution and a
  resolution rate of -100 the quality score is -2.625 and the opportunity score is -4.678.
\<close>

theorem negative_enrichment_gives_negative_dimensions:
  "quality (scoreRepository 0 negativeExample [] (optionsFor None)) = - 2.625 \<and>
   opportunity (scoreRepository 0 negativeExample [] (optionsFor None)) = - 4.678 \<and>
   \<not> (0 \<le> quality (scoreRepository 0 negativeExample [] (optionsFor None))) \<and>
   \<not> (0 \<le> opportunity (scoreRepository 0 negativeExample [] (optionsFor None)))"
  by (simp add: scoreRepository_fields calculateQualityScore_def calculateOpportunityScore_def
      negativeExample_scores negativeExample_counts optionsFor_def)

text \<open>
  Claim C5, amended. The final score is the weighted sum of the three dimension scores plus the
  mode bonus minus the size and mode penalties, clamped to [0, 1], and then multiplied by
  1.2 exactly when the later of \<open>updated_at\<close> and \<open>pushed_at\<close> is at most 7 days old,
  with no clamp after that. So for every repository the final score lies in [0, 1.2],
  no dimension score exceeds 1.2 and relevance is not negative; quality and opportunity
  are not negative when the sub-signals of the enrichment are not negative, an absent
  enrichment included.
\<close>

theorem final_score_clamp_then_freshness:
  "final (scoreRepository now r skills options) =
     (let s = scoreRepository now r skills options;
          ws = overrideWeights (getModeWeights (modeOrDefault options)) (weights options);
          weighted = relevance s * ScoringWeights.relevance ws +
                     quality s * ScoringWeights.quality ws +
                     opportunity s * ScoringWeights.opportunity ws;
          clamped = max 0 (min (weighted + modeBonus now r options -
                      (calculateSizePenalty r + calculateModePenalties now r options)) 1)
      in if daysSince now (max (updated_at r) (pushed_at r)) \<le> 7 then clamped * 1.2
         else clamped) \<and>
   0 \<le> final (scoreRepository now r skills options) \<and>
   final (scoreRepository now r skills options) \<le> 1.2 \<and>
   0 \<le> relevance (scoreRepository now r skills options) \<and>
   relevance (scoreRepository now r skills options) \<le> 1.2 \<and>
   quality (scoreRepository now r skills options) \<le> 1.2 \<and>
   opportunity (scoreRepository now r skills options) \<le> 1.2 \<and>
   (enrichmentNonNegative r \<longrightarrow>
      0 \<le> quality (scoreRepository now r skills options) \<and>
      0 \<le> opportunity (scoreRepository now r skills options))"
proof -
  let ?s = "scoreRepository now r skills options"
  let ?ws = "overrideWeights (getModeWeights (modeOrDefault options)) (weights options)"
  let ?clamped = "max 0 (min (relevance ?s * ScoringWeights.relevance ?ws +
                     quality ?s * ScoringWeights.quality ?ws +
                     opportunity ?s * ScoringWeights.opportunity ?ws + modeBonus now r options -
                      (calculateSizePenalty r + calculateModePenalties now r options)) 1)"
  have f: "final ?s =
      (if daysSince now (max (updated_at r) (pushed_at r)) \<le> 7 then ?clamped * 1.2
       else ?clamped)"
    unfolding scoreRepository_fields applyModeBonuses_eq applyFreshnessBoost_def
      daysSinceActivity_def by (rule refl)
  have c: "0 \<le> ?clamped" "?clamped \<le> 1"
    by simp_all
  have 1: "0 \<le> final ?s" "final ?s \<le> 1.2"
    using c unfolding f by (simp_all del: max.bounded_iff min.bounded_iff)
  have 2: "0 \<le> relevance ?s" "relevance ?s \<le> 1.2"
    using relevance_bounds[of r skills options] by (simp_all add: scoreRepository_fields)
  have 3: "quality ?s \<le> 1.2" "opportunity ?s \<le> 1.2"
    using quality_upper[of now r options] opportunity_upper[of r options]
    by (simp_all add: scoreRepository_fields)
  have 4: "0 \<le> quality ?s \<and> 0 \<le> opportunity ?s" if "enrichmentNonNegative r"
    using quality_nonneg[OF that, of now options] opportunity_nonneg[OF that, of options]
    by (simp add: scoreRepository_fields)
  show ?thesis
    using f 1 2 3 4 unfolding Let_def by blast
qed

theorem final_score_clamp_then_freshness_witness:
  "enrichmentNonNegative enrichedExample \<and>
   0 \<le> quality (scoreRepository 0 enrichedExample [] (optionsFor (Some Learning))) \<and>
   0 \<le> opportunity (scoreRepository 0 enrichedExample [] (optionsFor (Some Learning))) \<and>
   final (scoreRepository 0 enrichedExample [] (optionsFor (Some Learning))) \<le> 1.2"
proof -
  have "enrichmentNonNegative enrichedExample"
    by (simp add: enrichmentNonNegative_def enrichedExample_def exampleEnrichment_def
        exampleRepository_def commitAnalysisOf_def issueAnalysisOf_def dependencyAnalysisOf_def
        readmeAnalysisOf_def)
  then show ?thesis
    using final_score_clamp_then_freshness
      [of 0 enrichedExample "[]" "optionsFor (Some Learning)"]
    by blast
qed

lemma enrichedData_None:
  "enrichedData r = None \<Longrightarrow>
     commitAnalysisOf r = None \<and> issueAnalysisOf r = None \<and> dependencyAnalysisOf r = None \<and>
     readmeAnalysisOf r = None \<and> skillKeywordsOfReadme r = None"
  by (simp add: commitAnalysisOf_def issueAnalysisOf_def dependencyAnalysisOf_def
      readmeAnalysisOf_def skillKeywordsOfReadme_def)

lemma documentation_without_optional:
  "description r = None \<Longrightarrow> topics r = None \<Longrightarrow> homepage r = None \<Longrightarrow>
   calculateDocumentationScore r =
     (if license r \<noteq> None \<and> license r \<noteq> Some ''Other'' then 0.2 else 0) +
     (if goodFirstIssues r > 0 then 0.2 else 0)"
  by (auto simp: calculateDocumentationScore_def truthy_def split: option.splits)

text \<open>
  Claim C10. Each scorer over enriched data returns 0 when its block is absent, and all
  blocks are absent when the enrichment is. The scorers of the description, the topics
  and the language return 0 when their field is missing. The model has no failing
  branch: every access of the source to an optional field is guarded, and the guard is
  the \<open>None\<close> case here. For a repository without description, topics, homepage and
  enrichment the composite scorer returns a score whose breakdown holds these defaults.
\<close>

theorem missing_optional_data_degrades:
  "(commitAnalysisOf r = None \<longrightarrow> calculateCommitActivityScore r = 0) \<and>
   (issueAnalysisOf r = None \<longrightarrow> calculateIssueResponseScore r = 0) \<and>
   (dependencyAnalysisOf r = None \<longrightarrow> calculateDependencyHealthScore r = 0) \<and>
   (readmeAnalysisOf r = None \<longrightarrow> calculateReadmeQualityScore r = 0) \<and>
   (skillKeywordsOfReadme r = None \<longrightarrow> calculateSkillMatchScore r skills = 0) \<and>
   (enrichedData r = None \<longrightarrow>
      commitAnalysisOf r = None \<and> issueAnalysisOf r = None \<and> dependencyAnalysisOf r = None \<and>
      readmeAnalysisOf r = None \<and> skillKeywordsOfReadme r = None) \<and>
   (description r = None \<longrightarrow> calculateReadmeMatch r skills = 0) \<and>
   (topics r = None \<longrightarrow> calculateTopicMatch r skills = 0) \<and>
   (language r = None \<longrightarrow> calculateLanguageMatch r skills = 0) \<and>
   (description r = None \<and> topics r = None \<and> homepage r = None \<and> enrichedData r = None \<longrightarrow>
      breakdown (scoreRepository now r skills options) =
        \<lparr>languageMatch = calculateLanguageMatch r skills,
         topicMatch = 0,
         readmeMatch = 0,
         starsScore = calculateStarsScore (stargazers_count r),
         activityScore = calculateActivityScore now r,
         documentationScore =
           (if license r \<noteq> None \<and> license r \<noteq> Some ''Other'' then 0.2 else 0) +
           (if goodFirstIssues r > 0 then 0.2 else 0),
         issueScore = calculateIssueScore r,
         contributorScore = calculateContributorScore r,
         commitActivityScore = 0,
         issueResponseScore = 0,
         dependencyHealthScore = 0,
         readmeQualityScore = 0,
         skillMatchScore = 0\<rparr>)"
proof -
  have e: "calculateCommitActivityScore r = 0" if "commitAnalysisOf r = None"
    using that by (simp add: calculateCommitActivityScore_def)
  have i: "calculateIssueResponseScore r = 0" if "issueAnalysisOf r = None"
    using that by (simp add: calculateIssueResponseScore_def)
  have d: "calculateDependencyHealthScore r = 0" if "dependencyAnalysisOf r = None"
    using that by (simp add: calculateDependencyHealthScore_def)
  have q: "calculateReadmeQualityScore r = 0" if "readmeAnalysisOf r = None"
    using that by (simp add: calculateReadmeQualityScore_def)
  have k: "calculateSkillMatchScore r skills = 0" if "skillKeywordsOfReadme r = None"
    using that by (simp add: calculateSkillMatchScore_def)
  have rm: "calculateReadmeMatch r skills = 0" if "description r = None"
    using that by (simp add: calculateReadmeMatch_def truthy_def)
  have tm: "calculateTopicMatch r skills = 0" if "topics r = None"
    using that by (simp add: calculateTopicMatch_def)
  have lm: "calculateLanguageMatch r skills = 0" if "language r = None"
    using that by (simp add: calculateLanguageMatch_def truthy_def)
  have b: "breakdown (scoreRepository now r skills options) =
        \<lparr>languageMatch = calculateLanguageMatch r skills,
         topicMatch = 0,
         readmeMatch = 0,
         starsScore = calculateStarsScore (stargazers_count r),
         activityScore = calculateActivityScore now r,
         documentationScore =
           (if license r \<noteq> None \<and> license r \<noteq> Some ''Other'' then 0.2 else 0) +
           (if goodFirstIssues r > 0 then 0.2 else 0),
         issueScore = calculateIssueScore r,
         contributorScore = calculateContributorScore r,
         commitActivityScore = 0,
         issueResponseScore = 0,
         dependencyHealthScore = 0,
         readmeQualityScore = 0,
         skillMatchScore = 0\<rparr>"
    if h: "description r = None \<and> topics r = None \<and> homepage r = None \<and> enrichedData r = None"
  proof -
    from h have n: "commitAnalysisOf r = None" "issueAnalysisOf r = None"
      "dependencyAnalysisOf r = None" "readmeAnalysisOf r = None" "skillKeywordsOfReadme r = None"
      using enrichedData_None[of r] by simp_all
    from h have doc: "calculateDocumentationScore r =
        (if license r \<noteq> None \<and> license r \<noteq> Some ''Other'' then 0.2 else 0) +
        (if goodFirstIssues r > 0 then 0.2 else 0)"
      using documentation_without_optional[of r] by simp
    show ?thesis
      using h by (simp only: scoreRepository_def Let_def RepositoryScore.simps
          e[OF n(1)] i[OF n(2)] d[OF n(3)] q[OF n(4)] k[OF n(5)] rm tm doc)
  qed
  show ?thesis
    using e i d q k rm tm lm b enrichedData_None[of r] by blast
qed

theorem missing_optional_data_degrades_witness:
  "description exampleRepository = None \<and> topics exampleRepository = None \<and>
   homepage exampleRepository = None \<and> enrichedData exampleRepository = None \<and>
   language exampleRepository = None \<and>
   calculateCommitActivityScore exampleRepository = 0 \<and>
   calculateSkillMatchScore exampleRepository [] = 0 \<and>
   documentationScore (breakdown (scoreRepository 0 exampleRepository [] (optionsFor None))) = 0 \<and>
   readmeMatch (breakdown (scoreRepository 0 exampleRepository [] (optionsFor None))) = 0"
proof -
  have h: "description exampleRepository = None \<and> topics exampleRepository = None \<and>
      homepage exampleRepository = None \<and> enrichedData exampleRepository = None \<and>
      language exampleRepository = None \<and> license exampleRepository = None \<and>
      goodFirstIssues exampleRepository = 0"
    by (simp add: exampleRepository_def)
  show ?thesis
    using h missing_optional_data_degrades [of exampleRepository "[]" 0 "optionsFor None"]
    by simp
qed


section \<open>Properties of the ranking\<close>

lemma pickTier_branches:
  "pickTier pos S M L =
     (if (pos mod 4 = 0 \<or> pos mod 4 = 1) \<and> S \<noteq> [] then Some Small
      else if pos mod 4 = 2 \<and> M \<noteq> [] then Some Medium
      else if pos mod 4 = 3 \<and> L \<noteq> [] then Some Large
      else if S \<noteq> [] then Some Small
      else if M \<noteq> [] then Some Medium
      else if L \<noteq> [] then Some Large
      else None)"
proof -
  have "pos mod 4 < 4" by simp
  then consider "pos mod 4 = 0" | "pos mod 4 = 1" | "pos mod 4 = 2" | "pos mod 4 = 3"
    by linarith
  then show ?thesis
    by cases (simp_all add: pickTier_def Let_def tierPattern_def exhausted_def)
qed

lemma drop_hd_tl:
  "k < length xs \<Longrightarrow> hd (drop k xs) = xs ! k \<and> tl (drop k xs) = drop (Suc k) xs \<and> drop k xs \<noteq> []"
  by (simp add: hd_drop_conv_nth tl_drop drop_Suc)

lemma drop_exhausted: "\<not> k < length xs \<Longrightarrow> drop k xs = []"
  by simp

lemma tierLoop_cycleTiers:
  "tierLoop maxResults S M L i si mi li res =
     res @ cycleTiers (maxResults - i) i (drop si S) (drop mi M) (drop li L)"
proof (induction maxResults S M L i si mi li res rule: tierLoop.induct)
  case (1 maxResults S M L i si mi li res)
  show ?case
  proof (cases "i < maxResults")
    case False
    then show ?thesis by (subst tierLoop.simps) simp
  next
    case True
    then have n: "maxResults - i = Suc (maxResults - (i + 1))"
      by simp
    have "i mod 4 < 4" by simp
    then consider "i mod 4 = 0" | "i mod 4 = 1" | "i mod 4 = 2" | "i mod 4 = 3"
      by linarith
    then show ?thesis
    proof cases
      case 1
      show ?thesis
        apply (subst tierLoop.simps)
        apply (subst n)
        using True 1 "1.IH"
        by (auto simp: Let_def pickTier_branches drop_hd_tl simp del: tierLoop.simps)
    next
      case 2
      show ?thesis
        apply (subst tierLoop.simps)
        apply (subst n)
        using True 2 "1.IH"
        by (auto simp: Let_def pickTier_branches drop_hd_tl simp del: tierLoop.simps)
    next
      case 3
      show ?thesis
        apply (subst tierLoop.simps)
        apply (subst n)
        using True 3 "1.IH"
        by (auto simp: Let_def pickTier_branches drop_hd_tl simp del: tierLoop.simps)
    next
      case 4
      show ?thesis
        apply (subst tierLoop.simps)
        apply (subst n)
        using True 4 "1.IH"
        by (auto simp: Let_def pickTier_branches drop_hd_tl simp del: tierLoop.simps)
    qed
  qed
qed

lemma cycleTiers_length: "length (cycleTiers n pos S M L) \<le> n"
  by (induction n pos S M L rule: cycleTiers.induct)
     (auto split: option.splits Tier.splits)

lemma pickTier_Some:
  "pickTier pos S M L = Some t \<Longrightarrow> \<not> exhausted t S M L"
  by (auto simp: pickTier_def Let_def exhausted_def split: if_splits)

lemma pickTier_None:
  "pickTier pos S M L = None \<longleftrightarrow> S = [] \<and> M = [] \<and> L = []"
  by (auto simp: pickTier_def Let_def exhausted_def split: Tier.splits)

lemma cycleTiers_set: "set (cycleTiers n pos S M L) \<subseteq> set S \<union> set M \<union> set L"
proof (induction n pos S M L rule: cycleTiers.induct)
  case (1 pos small medium large)
  show ?case by simp
next
  case (2 budget pos small medium large)
  show ?case
  proof (cases "pickTier pos small medium large")
    case None
    then show ?thesis by simp
  next
    case (Some t)
    note ne = pickTier_Some[OF Some]
    show ?thesis
    proof (cases t)
      case Small
      with ne have "small \<noteq> []" by (simp add: exhausted_def)
      then have "hd small \<in> set small" "set (tl small) \<subseteq> set small"
        by (simp_all add: list.set_sel(2) subsetI)
      then show ?thesis using "2.IH"(1)[OF Some Small] Some Small by auto
    next
      case Medium
      with ne have "medium \<noteq> []" by (simp add: exhausted_def)
      then have "hd medium \<in> set medium" "set (tl medium) \<subseteq> set medium"
        by (simp_all add: list.set_sel(2) subsetI)
      then show ?thesis using "2.IH"(2)[OF Some Medium] Some Medium by auto
    next
      case Large
      with ne have "large \<noteq> []" by (simp add: exhausted_def)
      then have "hd large \<in> set large" "set (tl large) \<subseteq> set large"
        by (simp_all add: list.set_sel(2) subsetI)
      then show ?thesis using "2.IH"(3)[OF Some Large] Some Large by auto
    qed
  qed
qed

lemma cycleTiers_spare_budget:
  "length S + length M + length L \<le> n \<Longrightarrow>
     cycleTiers (Suc n) pos S M L = cycleTiers n pos S M L"
proof (induction n pos S M L rule: cycleTiers.induct)
  case (1 pos small medium large)
  then show ?case by (simp add: pickTier_None[THEN iffD2])
next
  case (2 budget pos small medium large)
  show ?case
  proof (cases "pickTier pos small medium large")
    case None
    then show ?thesis by simp
  next
    case (Some t)
    note ne = pickTier_Some[OF Some]
    show ?thesis
    proof (cases t)
      case Small
      with ne have "small \<noteq> []" by (simp add: exhausted_def)
      then have "length (tl small) + length medium + length large \<le> budget"
        using "2.prems" by (cases small) simp_all
      from "2.IH"(1)[OF Some Small this] show ?thesis
        using Some Small by simp
    next
      case Medium
      with ne have "medium \<noteq> []" by (simp add: exhausted_def)
      then have "length small + length (tl medium) + length large \<le> budget"
        using "2.prems" by (cases medium) simp_all
      from "2.IH"(2)[OF Some Medium this] show ?thesis
        using Some Medium by simp
    next
      case Large
      with ne have "large \<noteq> []" by (simp add: exhausted_def)
      then have "length small + length medium + length (tl large) \<le> budget"
        using "2.prems" by (cases large) simp_all
      from "2.IH"(3)[OF Some Large this] show ?thesis
        using Some Large by simp
    qed
  qed
qed

lemma cycleTiers_more_budget:
  "length S + length M + length L \<le> n \<Longrightarrow>
     cycleTiers (n + k) pos S M L = cycleTiers n pos S M L"
proof (induction k)
  case 0
  show ?case by simp
next
  case (Suc k)
  have "cycleTiers (Suc (n + k)) pos S M L = cycleTiers (n + k) pos S M L"
    using Suc.prems by (intro cycleTiers_spare_budget) simp
  then show ?case using Suc by simp
qed

lemma tiers_length:
  "length (filter isSmall xs) + length (filter isMedium xs) + length (filter isLarge xs)
     \<le> length xs"
  by (induction xs) (auto simp: isSmall_def isMedium_def isLarge_def)

lemma applyDiversityTiers_cycleTiers:
  "applyDiversityTiers xs =
     cycleTiers 50 0 (filter isSmall xs) (filter isMedium xs) (filter isLarge xs)"
proof -
  let ?S = "filter isSmall xs" and ?M = "filter isMedium xs" and ?L = "filter isLarge xs"
  have a: "applyDiversityTiers xs = cycleTiers (min (length xs) 50) 0 ?S ?M ?L"
    by (simp add: applyDiversityTiers_def Let_def tierLoop_cycleTiers del: tierLoop.simps)
  show ?thesis
  proof (cases "50 \<le> length xs")
    case True
    then show ?thesis using a by (simp add: min_def)
  next
    case False
    then have m: "min (length xs) 50 = length xs" and k: "50 = length xs + (50 - length xs)"
      by simp_all
    have "cycleTiers (length xs + (50 - length xs)) 0 ?S ?M ?L = cycleTiers (length xs) 0 ?S ?M ?L"
      using tiers_length[of xs] by (rule cycleTiers_more_budget)
    then show ?thesis using a m k by metis
  qed
qed

lemma cycleTiers_length_eq:
  "length (cycleTiers n pos S M L) = min n (length S + length M + length L)"
proof (induction n pos S M L rule: cycleTiers.induct)
  case (1 pos small medium large)
  show ?case by simp
next
  case (2 budget pos small medium large)
  show ?case
  proof (cases "pickTier pos small medium large")
    case None
    then have e: "small = [] \<and> medium = [] \<and> large = []"
      by (simp add: pickTier_None)
    show ?thesis
      unfolding cycleTiers.simps None using e by simp
  next
    case (Some t)
    note ne = pickTier_Some[OF Some]
    show ?thesis
    proof (cases t)
      case Small
      with ne have "small \<noteq> []" by (simp add: exhausted_def)
      then have "length small = Suc (length (tl small))" by (cases small) simp_all
      then show ?thesis using "2.IH"(1)[OF Some Small] Some Small by simp
    next
      case Medium
      with ne have "medium \<noteq> []" by (simp add: exhausted_def)
      then have "length medium = Suc (length (tl medium))" by (cases medium) simp_all
      then show ?thesis using "2.IH"(2)[OF Some Medium] Some Medium by simp
    next
      case Large
      with ne have "large \<noteq> []" by (simp add: exhausted_def)
      then have "length large = Suc (length (tl large))" by (cases large) simp_all
      then show ?thesis using "2.IH"(3)[OF Some Large] Some Large by simp
    qed
  qed
qed

lemma scoreRepositories_unfold:
  "scoreRepositories now shuffle repos skills options =
     applyDiversityTiers
       (randomizeCloseScores shuffle
          (sort_key (\<lambda>x. - final (score x))
             (map (\<lambda>r. \<lparr>repo = r, score = scoreRepository now r skills options\<rparr>) repos)))"
  by (simp add: scoreRepositories_def applyDiversityAndRandomization_def Let_def)

lemma cycleTiers_empty: "cycleTiers n pos [] [] [] = []"
  by (cases n) (simp_all add: pickTier_branches)

lemma cycleTiers_single_small: "0 < n \<Longrightarrow> cycleTiers n 0 [x] [] [] = [x]"
  by (cases n) (simp_all add: pickTier_branches cycleTiers_empty)

lemma scoreRepositories_single_example:
  "scoreRepositories 0 (\<lambda>xs. xs) [exampleRepository] [] (optionsFor None) =
     [\<lparr>repo = exampleRepository,
       score = scoreRepository 0 exampleRepository [] (optionsFor None)\<rparr>]"
proof -
  have st: "stargazers_count exampleRepository = 100"
    by (simp add: exampleRepository_def)
  show ?thesis
    by (simp add: scoreRepositories_unfold applyDiversityTiers_cycleTiers isSmall_def
        isMedium_def isLarge_def st cycleTiers_single_small)
qed

lemma scoreRepositories_single_unknown:
  "scoreRepositories 0 (\<lambda>xs. xs) [exampleRepository\<lparr>stargazers_count := 49\<rparr>] []
     (optionsFor None) = []"
  by (simp add: scoreRepositories_unfold applyDiversityTiers_cycleTiers isSmall_def
      isMedium_def isLarge_def cycleTiers_empty)

text \<open>
  Claim C3. A repository with fewer than 50 stars is in none of the three tiers, and
  every entry of the list that \<open>scoreRepositories\<close> returns is in a tier and has at least
  50 stars, for every batch, skill list, options, clock and shuffle.
\<close>

theorem scoreRepositories_drops_below_50_stars:
  "(\<forall>x. stargazers_count (repo x) < 50 \<longrightarrow> \<not> isSmall x \<and> \<not> isMedium x \<and> \<not> isLarge x) \<and>
   (\<forall>x \<in> set (scoreRepositories now shuffle repos skills options).
      50 \<le> stargazers_count (repo x) \<and> (isSmall x \<or> isMedium x \<or> isLarge x))"
proof -
  let ?ranked = "randomizeCloseScores shuffle
          (sort_key (\<lambda>x. - final (score x))
             (map (\<lambda>r. \<lparr>repo = r, score = scoreRepository now r skills options\<rparr>) repos))"
  have sub: "set (scoreRepositories now shuffle repos skills options) \<subseteq>
      set (filter isSmall ?ranked) \<union> set (filter isMedium ?ranked) \<union> set (filter isLarge ?ranked)"
    unfolding scoreRepositories_unfold applyDiversityTiers_cycleTiers
    by (rule cycleTiers_set)
  have tier: "isSmall x \<or> isMedium x \<or> isLarge x"
    if "x \<in> set (scoreRepositories now shuffle repos skills options)" for x
    using that sub by auto
  have big: "50 \<le> stargazers_count (repo x)" if "isSmall x \<or> isMedium x \<or> isLarge x" for x
    using that by (auto simp: isSmall_def isMedium_def isLarge_def)
  have none: "\<not> isSmall x \<and> \<not> isMedium x \<and> \<not> isLarge x" if "stargazers_count (repo x) < 50" for x
    using that by (simp add: isSmall_def isMedium_def isLarge_def)
  show ?thesis
    using tier big none by blast
qed

theorem scoreRepositories_drops_below_50_stars_witness:
  "(\<exists>x \<in> set (scoreRepositories 0 (\<lambda>xs. xs) [exampleRepository] [] (optionsFor None)).
      50 \<le> stargazers_count (repo x)) \<and>
   stargazers_count (exampleRepository\<lparr>stargazers_count := 49\<rparr>) < 50 \<and>
   scoreRepositories 0 (\<lambda>xs. xs) [exampleRepository\<lparr>stargazers_count := 49\<rparr>] []
     (optionsFor None) = []"
proof -
  have "\<exists>x. x \<in> set (scoreRepositories 0 (\<lambda>xs. xs) [exampleRepository] [] (optionsFor None))"
    by (simp add: scoreRepositories_single_example)
  then show ?thesis
    using scoreRepositories_drops_below_50_stars
      [of 0 "\<lambda>xs. xs" "[exampleRepository]" "[]" "optionsFor None"]
      scoreRepositories_single_unknown
    by auto
qed

text \<open>
  Claim C9. The list that \<open>scoreRepositories\<close> returns is the tier cycle of the
  specification, with a budget of 50, over the small, medium and large entries of the
  sorted and shuffled batch in their order there; it has at most 50 entries, and exactly
  50 or all entries of the three tiers, whichever is less.
\<close>

theorem scoreRepositories_tier_cycle:
  "(let ranked =
          randomizeCloseScores shuffle
            (sort_key (\<lambda>x. - final (score x))
               (map (\<lambda>r. \<lparr>repo = r, score = scoreRepository now r skills options\<rparr>) repos));
        small = filter isSmall ranked;
        medium = filter isMedium ranked;
        large = filter isLarge ranked;
        out = scoreRepositories now shuffle repos skills options
    in out = cycleTiers 50 0 small medium large \<and>
       length out \<le> 50 \<and>
       length out = min 50 (length small + length medium + length large))"
  unfolding Let_def scoreRepositories_unfold applyDiversityTiers_cycleTiers
  using cycleTiers_length cycleTiers_length_eq by blast

theorem scoreRepositories_tier_cycle_witness:
  "scoreRepositories 0 (\<lambda>xs. xs) [exampleRepository] [] (optionsFor None) =
     cycleTiers 50 0
       [\<lparr>repo = exampleRepository,
         score = scoreRepository 0 exampleRepository [] (optionsFor None)\<rparr>] [] [] \<and>
   length (scoreRepositories 0 (\<lambda>xs. xs) [exampleRepository] [] (optionsFor None)) = 1"
proof -
  have st: "stargazers_count exampleRepository = 100"
    by (simp add: exampleRepository_def)
  show ?thesis
    using scoreRepositories_tier_cycle
      [of "\<lambda>xs. xs" 0 "[]" "optionsFor None" "[exampleRepository]"]
    by (simp add: Let_def isSmall_def isMedium_def isLarge_def st cycleTiers_single_small)
qed

end
